theory Spec2Isabelle
  imports Complex_Main
begin

section \<open>Values of the Python program\<close>

text \<open>
  The analysis script works on NumPy arrays of 64-bit floats.  The finite floats are
  idealised as \<^typ>\<open>real\<close> numbers; \<open>nan\<close>, which the script itself produces and
  tests for, and the two infinities, which a float operation can answer, are
  constructors of their own.  Exceptions are values of \<open>py_error\<close>.
\<close>

datatype npfloat = NaN | NegInf | PosInf | Num real

text \<open>The comparison \<open><\<close> of two floats: false as soon as one of them is \<open>nan\<close>.\<close>

fun float_less :: "npfloat \<Rightarrow> npfloat \<Rightarrow> bool" where
  "float_less (Num x) (Num y) = (x < y)"
| "float_less NegInf (Num y) = True"
| "float_less NegInf PosInf = True"
| "float_less (Num x) PosInf = True"
| "float_less u v = False"

datatype py_error = ValueError | IndexError | TypeError | RuntimeError

text \<open>
  A trial is one row of the trial table: the stimulus intensity \<open>cmpPx\<close> and the
  outcome \<open>correct\<close>.  The two arrays every function receives, \<open>cmpPx_values\<close> and
  \<open>correct_responses\<close>, are the two columns of that table: \<open>analyze_dataset\<close> fills
  both from the same rows, so they have one length and the boolean mask made from the
  first selects in the second.  Printing is left out of the model, except where the
  value printed can raise.
\<close>

type_synonym trial = "real \<times> bool"

definition cmpPx_values :: "trial list \<Rightarrow> real list" where
  "cmpPx_values trials = map fst trials"

definition correct_responses :: "trial list \<Rightarrow> bool list" where
  "correct_responses trials = map snd trials"

subsection \<open>The NumPy operations the script calls\<close>

definition np_unique :: "real list \<Rightarrow> real list" where
  "np_unique xs = sort (remdups xs)"

definition np_sort :: "real list \<Rightarrow> real list" where
  "np_sort xs = sort xs"

definition np_sum_bool :: "bool list \<Rightarrow> nat" where
  "np_sum_bool bs = length (filter (\<lambda>b. b) bs)"

definition mask_eq :: "real list \<Rightarrow> real \<Rightarrow> bool list" where
  "mask_eq vs v = map (\<lambda>u. u = v) vs"

definition bool_index :: "'a list \<Rightarrow> bool list \<Rightarrow> 'a list" where
  "bool_index xs msk = map fst (filter snd (zip xs msk))"

definition np_any :: "bool list \<Rightarrow> bool" where
  "np_any bs = list_ex (\<lambda>b. b) bs"

definition np_all :: "bool list \<Rightarrow> bool" where
  "np_all bs = list_all (\<lambda>b. b) bs"

definition np_where :: "bool list \<Rightarrow> nat list" where
  "np_where bs = filter (\<lambda>i. bs ! i) [0..<length bs]"

fun np_min :: "real list \<Rightarrow> py_error + real" where
  "np_min [] = Inl ValueError"
| "np_min (x # xs) = Inr (fold min xs x)"

fun np_max :: "real list \<Rightarrow> py_error + real" where
  "np_max [] = Inl ValueError"
| "np_max (x # xs) = Inr (fold max xs x)"

definition getitem :: "'a list \<Rightarrow> nat \<Rightarrow> py_error + 'a" where
  "getitem xs i = (if i < length xs then Inr (xs ! i) else Inl IndexError)"

section \<open>simple_threshold_estimate\<close>

text \<open>
  The loop over \<open>unique_cmpPx\<close> that fills \<open>x_data\<close>, \<open>y_data\<close> and \<open>n_trials\<close>;
  the three lists under construction are the loop state.
\<close>

fun simple_levels_loop ::
  "real list \<Rightarrow> trial list \<Rightarrow> real list \<times> real list \<times> nat list
    \<Rightarrow> real list \<times> real list \<times> nat list" where
  "simple_levels_loop [] trials acc = acc"
| "simple_levels_loop (cmpPx # rest) trials (x_data, y_data, n_trials) =
     (let msk = mask_eq (cmpPx_values trials) cmpPx;
          trials_at_level = np_sum_bool msk
      in if trials_at_level \<ge> 2 then
           (let correct_at_level = np_sum_bool (bool_index (correct_responses trials) msk);
                prop_correct = real correct_at_level / real trials_at_level
            in simple_levels_loop rest trials
                 (x_data @ [cmpPx], y_data @ [prop_correct], n_trials @ [trials_at_level]))
         else simple_levels_loop rest trials (x_data, y_data, n_trials))"

definition simple_levels :: "trial list \<Rightarrow> real list \<times> real list \<times> nat list" where
  "simple_levels trials =
     (let unique_cmpPx = np_sort (np_unique (cmpPx_values trials))
      in simple_levels_loop unique_cmpPx trials ([], [], []))"

text \<open>
  The rest of the function, from the test \<open>len(x_data) < 3\<close> on: the threshold as a
  function of the aggregated levels and the target.
\<close>

definition interpolate :: "real \<Rightarrow> real \<Rightarrow> real \<Rightarrow> real \<Rightarrow> real \<Rightarrow> real" where
  "interpolate x1 y1 x2 y2 target_performance =
     (if y2 \<noteq> y1 then x1 + (target_performance - y1) * (x2 - x1) / (y2 - y1)
      else (x1 + x2) / 2)"

definition threshold_from_levels ::
  "real list \<Rightarrow> real list \<Rightarrow> real \<Rightarrow> py_error + npfloat" where
  "threshold_from_levels x_data y_data target_performance =
     (if length x_data < 3 then Inr NaN
      else
        (let below_target = map (\<lambda>y. y < target_performance) y_data;
             above_target = map (\<lambda>y. y \<ge> target_performance) y_data
         in if \<not> np_any below_target \<or> \<not> np_any above_target then
              (if np_all (map (\<lambda>y. y \<ge> target_performance) y_data) then
                 (case np_min x_data of
                    Inl e \<Rightarrow> Inl e
                  | Inr mn \<Rightarrow> Inr (Num (mn - (mn * 0.1))))
               else
                 (case np_max x_data of
                    Inl e \<Rightarrow> Inl e
                  | Inr mx \<Rightarrow> Inr (Num (mx + (mx * 0.1)))))
            else
              (case getitem (np_where above_target) 0 of
                 Inl e \<Rightarrow> Inl e
               | Inr transition_idx \<Rightarrow>
                   if transition_idx = 0 then
                     (case getitem x_data 0 of
                        Inl e \<Rightarrow> Inl e
                      | Inr x0 \<Rightarrow> Inr (Num x0))
                   else
                     (case getitem x_data (transition_idx - 1) of
                        Inl e \<Rightarrow> Inl e
                      | Inr x1 \<Rightarrow>
                     (case getitem y_data (transition_idx - 1) of
                        Inl e \<Rightarrow> Inl e
                      | Inr y1 \<Rightarrow>
                     (case getitem x_data transition_idx of
                        Inl e \<Rightarrow> Inl e
                      | Inr x2 \<Rightarrow>
                     (case getitem y_data transition_idx of
                        Inl e \<Rightarrow> Inl e
                      | Inr y2 \<Rightarrow>
                          Inr (Num (interpolate x1 y1 x2 y2 target_performance)))))))))"

definition simple_threshold_estimate ::
  "trial list \<Rightarrow> real \<Rightarrow> py_error + (npfloat \<times> real list \<times> real list \<times> nat list)" where
  "simple_threshold_estimate trials target_performance =
     (case simple_levels trials of (x_data, y_data, n_trials) \<Rightarrow>
        (case threshold_from_levels x_data y_data target_performance of
           Inl e \<Rightarrow> Inl e
         | Inr threshold \<Rightarrow> Inr (threshold, x_data, y_data, n_trials)))"

section \<open>The library collaborators\<close>

text \<open>
  \<open>scipy.optimize.curve_fit\<close> and \<open>scipy.stats.norm\<close> are library code, not code of the
  script: they are parameters of the model.  What the script passes to the optimizer is
  recorded in a \<open>curve_fit_call\<close>; the optimizer either raises or returns \<open>popt\<close> and
  \<open>pcov\<close>.  \<open>norm.ppf\<close> may answer \<open>nan\<close>.

  The threshold of the logistic fit is computed from \<open>popt\<close> by float64 subtraction,
  division and \<open>np.log\<close>, and then compared with the level intensities: there the
  rounding of each operation decides which branch is taken.  These three operations
  are parameters as well, so that what is proved of the branch holds for the rounded
  value the program compares, whatever the rounding is.
\<close>

datatype model_function = LogisticFunction | CumulativeNormalFunction

record curve_fit_call =
  cf_f :: model_function
  cf_xdata :: "real list"
  cf_ydata :: "real list"
  cf_p0 :: "npfloat list"
  cf_bounds :: "(real list \<times> real list) option"
  cf_sigma :: "real list"
  cf_absolute_sigma :: bool
  cf_maxfev :: "nat option"

record scipy =
  curve_fit :: "curve_fit_call \<Rightarrow> py_error + (real list \<times> real list list)"
  norm_cdf :: "real \<Rightarrow> real \<Rightarrow> real \<Rightarrow> real"
  norm_ppf :: "real \<Rightarrow> real \<Rightarrow> real \<Rightarrow> npfloat"
  float_sub :: "npfloat \<Rightarrow> npfloat \<Rightarrow> npfloat"
  float_div :: "npfloat \<Rightarrow> npfloat \<Rightarrow> npfloat"
  np_log :: "npfloat \<Rightarrow> npfloat"

definition try_bind :: "py_error + 'a \<Rightarrow> ('a \<Rightarrow> py_error + 'b) \<Rightarrow> py_error + 'b" where
  "try_bind r f = (case r of Inl e \<Rightarrow> Inl e | Inr v \<Rightarrow> f v)"

section \<open>The two curve models\<close>

definition logistic_function :: "real \<Rightarrow> real \<Rightarrow> real \<Rightarrow> real \<Rightarrow> real \<Rightarrow> real" where
  "logistic_function x a b c d = a + (d - a) / (1 + exp (- b * (x - c)))"

definition cumulative_normal :: "scipy \<Rightarrow> real \<Rightarrow> real \<Rightarrow> real \<Rightarrow> real" where
  "cumulative_normal lib x mu sigma = norm_cdf lib x mu sigma"

section \<open>fit_psychophysical_curve\<close>

text \<open>The function's own copy of the aggregation loop.\<close>

fun fit_levels_loop ::
  "real list \<Rightarrow> trial list \<Rightarrow> real list \<times> real list \<times> nat list
    \<Rightarrow> real list \<times> real list \<times> nat list" where
  "fit_levels_loop [] trials acc = acc"
| "fit_levels_loop (cmpPx # rest) trials (x_data, y_data, n_trials) =
     (let msk = mask_eq (cmpPx_values trials) cmpPx;
          trials_at_level = np_sum_bool msk
      in if trials_at_level \<ge> 2 then
           (let correct_at_level = np_sum_bool (bool_index (correct_responses trials) msk);
                prop_correct = real correct_at_level / real trials_at_level
            in fit_levels_loop rest trials
                 (x_data @ [cmpPx], y_data @ [prop_correct], n_trials @ [trials_at_level]))
         else fit_levels_loop rest trials (x_data, y_data, n_trials))"

text \<open>
  \<open>np.mean\<close>, \<open>np.median\<close> and \<open>np.std\<close>.  On an empty array NumPy answers \<open>nan\<close>
  with a warning.  \<open>np_mean\<close> is only applied to \<open>y_data\<close> to centre its own elements,
  so on the empty list its value is never looked at.
\<close>

definition np_mean :: "real list \<Rightarrow> real" where
  "np_mean xs = sum_list xs / real (length xs)"

definition np_median :: "real list \<Rightarrow> npfloat" where
  "np_median xs =
     (let s = sort xs; n = length s
      in if n = 0 then NaN
         else if odd n then Num (s ! (n div 2))
         else Num ((s ! (n div 2 - 1) + s ! (n div 2)) / 2))"

definition np_std :: "real list \<Rightarrow> npfloat" where
  "np_std xs =
     (if xs = [] then NaN
      else Num (sqrt (np_mean (map (\<lambda>x. \<bar>x - np_mean xs\<bar> ^ 2) xs))))"

definition r_squared_of :: "real list \<Rightarrow> real list \<Rightarrow> real" where
  "r_squared_of y_data y_pred =
     (let ss_res = sum_list (map (\<lambda>(y, p). (y - p) ^ 2) (zip y_data y_pred));
          ss_tot = sum_list (map (\<lambda>y. (y - np_mean y_data) ^ 2) y_data)
      in if ss_tot > 0 then 1 - (ss_res / ss_tot) else 0)"

text \<open>The search for the first level that reaches 70 percent, with its \<open>break\<close>.\<close>

fun threshold_guess_loop :: "nat \<Rightarrow> real list \<Rightarrow> real list \<Rightarrow> real \<Rightarrow> py_error + real" where
  "threshold_guess_loop i [] x_data threshold_guess = Inr threshold_guess"
| "threshold_guess_loop i (perf # rest) x_data threshold_guess =
     (if perf \<ge> 0.7 then getitem x_data i
      else threshold_guess_loop (Suc i) rest x_data threshold_guess)"

type_synonym fit_tuple =
  "real list option \<times> real list list option \<times> real option \<times> npfloat option
    \<times> real list option \<times> real list option \<times> nat list option"

definition all_none :: fit_tuple where
  "all_none = (None, None, None, None, None, None, None)"

text \<open>The logistic branch up to the call of the optimizer: guesses, bounds and weights.\<close>

definition logistic_setup :: "real list \<Rightarrow> real list \<Rightarrow> nat list \<Rightarrow> py_error + curve_fit_call" where
  "logistic_setup x_data y_data n_trials =
     try_bind (np_max x_data) (\<lambda>x_max.
     try_bind (np_min x_data) (\<lambda>x_min.
       let x_range = x_max - x_min;
           x_mid = x_min + x_range * 0.5
       in
     try_bind (threshold_guess_loop 0 y_data x_data x_mid) (\<lambda>threshold_guess.
     try_bind (np_max y_data) (\<lambda>max_perf.
     try_bind (np_min y_data) (\<lambda>min_perf.
       let slope_guess = 4.0 / x_range;
           p0 = [Num min_perf, Num slope_guess, Num threshold_guess, Num max_perf];
           bounds = ([0.4, 0.001, x_min, min_perf], [0.6, 100 / x_range, x_max, 1.0]);
           weights = map (\<lambda>(n, y). sqrt (real n) * (1 - \<bar>y - 0.5\<bar> * 0.5)) (zip n_trials y_data)
       in Inr \<lparr>cf_f = LogisticFunction, cf_xdata = x_data, cf_ydata = y_data, cf_p0 = p0,
               cf_bounds = Some bounds, cf_sigma = map (\<lambda>w. 1 / w) weights,
               cf_absolute_sigma = False, cf_maxfev = Some 5000\<rparr>)))))"

text \<open>
  The logistic branch after the optimizer returned: R squared and the threshold.  The
  call \<open>logistic_function(x_data, *popt)\<close> and the unpacking \<open>a, b, c, d = popt\<close> need
  exactly four parameters and raise otherwise.
\<close>

text \<open>
  The literal \<open>0.707\<close> denotes the float64 nearest to it, which is a little below
  707/1000.
\<close>

definition float_0_707 :: real where
  "float_0_707 = 6368089873101881 / 9007199254740992"

definition logistic_threshold ::
  "scipy \<Rightarrow> real \<Rightarrow> real \<Rightarrow> real \<Rightarrow> real \<Rightarrow> real list \<Rightarrow> py_error + npfloat" where
  "logistic_threshold lib a b c d x_data =
     (let target_performance = float_0_707
      in if a < target_performance \<and> target_performance < d \<and> b > 0 then
           (let threshold_707 =
                  float_sub lib (Num c)
                    (float_div lib
                       (np_log lib
                          (float_sub lib
                             (float_div lib
                                (float_sub lib (Num d) (Num a))
                                (float_sub lib (Num target_performance) (Num a)))
                             (Num 1)))
                       (Num b))
            in try_bind (np_min x_data) (\<lambda>x_min.
                 if float_less threshold_707 (Num x_min) then Inr NaN
                 else try_bind (np_max x_data) (\<lambda>x_max.
                   if float_less (Num x_max) threshold_707 then Inr NaN
                   else Inr threshold_707)))
         else Inr NaN)"

fun logistic_finish ::
  "scipy \<Rightarrow> real list \<Rightarrow> real list \<Rightarrow> nat list \<Rightarrow> real list \<Rightarrow> real list list
    \<Rightarrow> py_error + fit_tuple" where
  "logistic_finish lib x_data y_data n_trials [a, b, c, d] pcov =
     (let y_pred = map (\<lambda>x. logistic_function x a b c d) x_data;
          r_squared = r_squared_of y_data y_pred
      in try_bind (logistic_threshold lib a b c d x_data) (\<lambda>threshold_707.
           Inr (Some [a, b, c, d], Some pcov, Some r_squared, Some threshold_707,
                Some x_data, Some y_data, Some n_trials)))"
| "logistic_finish lib x_data y_data n_trials popt pcov = Inl TypeError"

definition logistic_branch ::
  "scipy \<Rightarrow> real list \<Rightarrow> real list \<Rightarrow> nat list \<Rightarrow> (py_error + fit_tuple) \<times> curve_fit_call list" where
  "logistic_branch lib x_data y_data n_trials =
     (case logistic_setup x_data y_data n_trials of
        Inl e \<Rightarrow> (Inl e, [])
      | Inr call \<Rightarrow>
          (case curve_fit lib call of
             Inl e \<Rightarrow> (Inl e, [call])
           | Inr (popt, pcov) \<Rightarrow> (logistic_finish lib x_data y_data n_trials popt pcov, [call])))"

text \<open>The cumulative-normal branch, in the same three steps.\<close>

definition cumulative_setup :: "real list \<Rightarrow> real list \<Rightarrow> nat list \<Rightarrow> py_error + curve_fit_call" where
  "cumulative_setup x_data y_data n_trials =
     (let p0 = [np_median x_data, np_std x_data]
      in Inr \<lparr>cf_f = CumulativeNormalFunction, cf_xdata = x_data, cf_ydata = y_data, cf_p0 = p0,
              cf_bounds = None, cf_sigma = map (\<lambda>n. 1 / sqrt (real n)) n_trials,
              cf_absolute_sigma = False, cf_maxfev = None\<rparr>)"

fun cumulative_finish ::
  "scipy \<Rightarrow> real list \<Rightarrow> real list \<Rightarrow> nat list \<Rightarrow> real list \<Rightarrow> real list list
    \<Rightarrow> py_error + fit_tuple" where
  "cumulative_finish lib x_data y_data n_trials [mu, sigma] pcov =
     (let y_pred = map (\<lambda>x. cumulative_normal lib x mu sigma) x_data;
          r_squared = r_squared_of y_data y_pred;
          threshold_707 = norm_ppf lib 0.707 mu sigma
      in Inr (Some [mu, sigma], Some pcov, Some r_squared, Some threshold_707,
              Some x_data, Some y_data, Some n_trials))"
| "cumulative_finish lib x_data y_data n_trials popt pcov = Inl TypeError"

definition cumulative_branch ::
  "scipy \<Rightarrow> real list \<Rightarrow> real list \<Rightarrow> nat list \<Rightarrow> (py_error + fit_tuple) \<times> curve_fit_call list" where
  "cumulative_branch lib x_data y_data n_trials =
     (case cumulative_setup x_data y_data n_trials of
        Inl e \<Rightarrow> (Inl e, [])
      | Inr call \<Rightarrow>
          (case curve_fit lib call of
             Inl e \<Rightarrow> (Inl e, [call])
           | Inr (popt, pcov) \<Rightarrow> (cumulative_finish lib x_data y_data n_trials popt pcov, [call])))"

text \<open>
  \<open>try: ... except Exception\<close>: whatever is raised inside the block becomes the tuple of
  seven \<open>None\<close>.
\<close>

definition try_except ::
  "(py_error + fit_tuple) \<times> curve_fit_call list \<Rightarrow> fit_tuple option \<times> curve_fit_call list" where
  "try_except r =
     (case r of
        (Inl e, calls) \<Rightarrow> (Some all_none, calls)
      | (Inr t, calls) \<Rightarrow> (Some t, calls))"

text \<open>
  The function returns its Python value (\<open>None\<close> when it falls off its end, for a method
  name that is neither of the two) together with the optimizer calls it made, in order.
\<close>

definition fit_levels :: "trial list \<Rightarrow> real list \<times> real list \<times> nat list" where
  "fit_levels trials =
     (let unique_cmpPx = np_sort (np_unique (cmpPx_values trials))
      in fit_levels_loop unique_cmpPx trials ([], [], []))"

definition fit_psychophysical_curve ::
  "scipy \<Rightarrow> trial list \<Rightarrow> string \<Rightarrow> fit_tuple option \<times> curve_fit_call list" where
  "fit_psychophysical_curve lib trials method =
     (let unique_cmpPx = np_sort (np_unique (cmpPx_values trials))
      in if length unique_cmpPx < 4 then (Some all_none, [])
         else
           (case fit_levels_loop unique_cmpPx trials ([], [], []) of
              (x_data, y_data, n_trials) \<Rightarrow>
                if length x_data < 4 then (Some all_none, [])
                else if method = ''logistic'' then
                  try_except (logistic_branch lib x_data y_data n_trials)
                else if method = ''cumulative_normal'' then
                  try_except (cumulative_branch lib x_data y_data n_trials)
                else (None, [])))"

section \<open>analyze_dataset\<close>

text \<open>
  A session is one loaded file: its trial table and the time stamp of its name.  The
  dictionary \<open>dataset_data\<close> is the list of its items in iteration order.
\<close>

record 'dt session =
  session_data :: "trial list"
  session_datetime :: 'dt

record 'dt session_entry =
  si_filename :: string
  si_datetime :: 'dt
  si_trials :: nat
  si_accuracy :: npfloat

record 'dt analysis_result =
  res_dataset :: string
  res_n_trials :: nat
  res_overall_accuracy :: npfloat
  res_stimulus_range :: "real \<times> real"
  res_simple_threshold :: npfloat
  res_fit_params :: "real list option"
  res_r_squared :: "real option"
  res_threshold_707 :: "npfloat option"
  res_x_data :: "real list option"
  res_y_data :: "real list option"
  res_n_trials_per_level :: "nat list option"
  res_session_info :: "'dt session_entry list"
  res_method :: string

definition np_mean_bool :: "bool list \<Rightarrow> npfloat" where
  "np_mean_bool bs = (if bs = [] then NaN else Num (real (np_sum_bool bs) / real (length bs)))"

definition session_info_of :: "(string \<times> 'dt session) list \<Rightarrow> 'dt session_entry list" where
  "session_info_of dataset_data =
     map (\<lambda>(filename, info).
            \<lparr>si_filename = filename, si_datetime = session_datetime info,
             si_trials = length (session_data info),
             si_accuracy = np_mean_bool (correct_responses (session_data info))\<rparr>)
         dataset_data"

definition all_trials_of :: "(string \<times> 'dt session) list \<Rightarrow> trial list" where
  "all_trials_of dataset_data = concat (map (\<lambda>(filename, info). session_data info) dataset_data)"

definition analyze_dataset ::
  "scipy \<Rightarrow> string \<Rightarrow> (string \<times> 'dt session) list \<Rightarrow> string \<Rightarrow> py_error + 'dt analysis_result" where
  "analyze_dataset lib dataset_name dataset_data method =
     (let all_trials = all_trials_of dataset_data;
          session_info = session_info_of dataset_data;
          all_cmpPx = cmpPx_values all_trials;
          all_correct = correct_responses all_trials
      in
      try_bind (np_min all_cmpPx) (\<lambda>lo.
      try_bind (np_max all_cmpPx) (\<lambda>hi.
      try_bind (simple_threshold_estimate all_trials 0.707)
        (\<lambda>(simple_threshold, x_simple, y_simple, n_simple).
      (case fst (fit_psychophysical_curve lib all_trials method) of
         None \<Rightarrow> Inl TypeError
       | Some (popt, pcov, r_squared, threshold_707, x_data, y_data, n_trials) \<Rightarrow>
           if popt \<noteq> None then
             Inr \<lparr>res_dataset = dataset_name,
                  res_n_trials = length all_cmpPx,
                  res_overall_accuracy = np_mean_bool all_correct,
                  res_stimulus_range = (lo, hi),
                  res_simple_threshold = simple_threshold,
                  res_fit_params = popt,
                  res_r_squared = r_squared,
                  res_threshold_707 = threshold_707,
                  res_x_data = x_data,
                  res_y_data = y_data,
                  res_n_trials_per_level = n_trials,
                  res_session_info = session_info,
                  res_method = method\<rparr>
           else
             Inr \<lparr>res_dataset = dataset_name,
                  res_n_trials = length all_cmpPx,
                  res_overall_accuracy = np_mean_bool all_correct,
                  res_stimulus_range = (lo, hi),
                  res_simple_threshold = simple_threshold,
                  res_fit_params = None,
                  res_r_squared = None,
                  res_threshold_707 = Some NaN,
                  res_x_data = Some x_simple,
                  res_y_data = Some y_simple,
                  res_n_trials_per_level = Some n_simple,
                  res_session_info = session_info,
                  res_method = method\<rparr>)))))"

section \<open>Vocabulary of the properties\<close>

text \<open>
  The components of the seven-tuple that \<open>fit_psychophysical_curve\<close> returns, by the
  names the caller unpacks them to.
\<close>

definition fit_popt :: "fit_tuple \<Rightarrow> real list option" where
  "fit_popt t = fst t"

definition fit_r_squared :: "fit_tuple \<Rightarrow> real option" where
  "fit_r_squared t = fst (snd (snd t))"

definition fit_threshold :: "fit_tuple \<Rightarrow> npfloat option" where
  "fit_threshold t = fst (snd (snd (snd t)))"

definition fit_levels_returned ::
  "fit_tuple \<Rightarrow> real list option \<times> real list option \<times> nat list option" where
  "fit_levels_returned t = snd (snd (snd (snd t)))"

text \<open>
  What the specification says of a level: its trial count is the number of trials at
  exactly that intensity, its correct count the number of those that were correct.
\<close>

definition level_trial_count :: "trial list \<Rightarrow> real \<Rightarrow> nat" where
  "level_trial_count trials v = length (filter (\<lambda>t. fst t = v) trials)"

definition level_correct_count :: "trial list \<Rightarrow> real \<Rightarrow> nat" where
  "level_correct_count trials v = length (filter (\<lambda>t. fst t = v \<and> snd t) trials)"

text \<open>
  Stand-ins for the library, to run the functions on sample data: an optimizer that
  answers with fixed parameters whatever it is asked, and one that always raises.
  Their float operations compute without rounding on finite numbers.
\<close>

fun exact_sub :: "npfloat \<Rightarrow> npfloat \<Rightarrow> npfloat" where
  "exact_sub (Num x) (Num y) = Num (x - y)"
| "exact_sub u v = NaN"

fun exact_div :: "npfloat \<Rightarrow> npfloat \<Rightarrow> npfloat" where
  "exact_div (Num x) (Num y) = (if y = 0 then NaN else Num (x / y))"
| "exact_div u v = NaN"

fun exact_log :: "npfloat \<Rightarrow> npfloat" where
  "exact_log (Num x) = (if x > 0 then Num (ln x) else NaN)"
| "exact_log u = NaN"

definition constant_scipy :: "real list \<Rightarrow> npfloat \<Rightarrow> scipy" where
  "constant_scipy popt q =
     \<lparr>curve_fit = (\<lambda>call. Inr (popt, [])),
      norm_cdf = (\<lambda>x mu sigma. 0),
      norm_ppf = (\<lambda>p mu sigma. q),
      float_sub = exact_sub,
      float_div = exact_div,
      np_log = exact_log\<rparr>"

definition raising_scipy :: scipy where
  "raising_scipy =
     \<lparr>curve_fit = (\<lambda>call. Inl RuntimeError),
      norm_cdf = (\<lambda>x mu sigma. 0),
      norm_ppf = (\<lambda>p mu sigma. NaN),
      float_sub = exact_sub,
      float_div = exact_div,
      np_log = exact_log\<rparr>"

text \<open>Sample trial tables: two trials at each of the intensities 1, 2, ...\<close>

definition sample_two_levels :: "trial list" where
  "sample_two_levels = [(1, False), (1, False), (2, True), (2, True)]"

definition sample_three_levels :: "trial list" where
  "sample_three_levels = [(1, False), (1, False), (2, False), (2, True), (3, True), (3, True)]"

definition sample_four_levels :: "trial list" where
  "sample_four_levels =
     [(1, False), (1, False), (2, False), (2, True), (3, True), (3, True), (4, True), (4, True)]"

definition sample_from_zero :: "trial list" where
  "sample_from_zero = [(0, True), (0, True), (1, True), (1, True), (2, True), (2, True)]"

text \<open>
  Line 297 with the rounding of each float64 operation written out: round to nearest,
  ties to even, 53 significant bits.  The exponent range is left unbounded, so the
  definition is that of float64 wherever nothing overflows or is subnormal.
\<close>

definition round_half_even :: "real \<Rightarrow> int" where
  "round_half_even q =
     (let f = \<lfloor>q\<rfloor>; r = q - of_int f
      in if r < 1/2 then f else if 1/2 < r then f + 1 else if even f then f else f + 1)"

definition pow2 :: "int \<Rightarrow> real" where
  "pow2 k = (if 0 \<le> k then 2 ^ nat k else 1 / 2 ^ nat (- k))"

definition binary64 :: "real \<Rightarrow> real" where
  "binary64 x =
     (if x = 0 then 0
      else (let e = \<lfloor>log 2 \<bar>x\<bar>\<rfloor>; ulp = pow2 (e - 52)
            in of_int (round_half_even (x / ulp)) * ulp))"

definition interpolate_binary64 :: "real \<Rightarrow> real \<Rightarrow> real \<Rightarrow> real \<Rightarrow> real \<Rightarrow> real" where
  "interpolate_binary64 x1 y1 x2 y2 target_performance =
     (if y2 \<noteq> y1 then
        binary64 (x1 + binary64 (binary64 (binary64 (target_performance - y1) * binary64 (x2 - x1))
                                  / binary64 (y2 - y1)))
      else binary64 (binary64 (x1 + x2) / 2))"

section \<open>Facts about the NumPy operations\<close>

lemma trials_at_level_count:
  "np_sum_bool (mask_eq (cmpPx_values trials) v) = level_trial_count trials v"
  by (induction trials)
     (auto simp: np_sum_bool_def mask_eq_def cmpPx_values_def level_trial_count_def)

lemma correct_at_level_count:
  "np_sum_bool (bool_index (correct_responses trials) (mask_eq (cmpPx_values trials) v))
     = level_correct_count trials v"
  by (induction trials)
     (auto simp: np_sum_bool_def mask_eq_def cmpPx_values_def bool_index_def
                 correct_responses_def level_correct_count_def)

lemma unique_strict: "sorted_wrt (<) (np_sort (np_unique xs))"
  by (simp add: np_sort_def np_unique_def strict_sorted_iff)

lemma unique_set: "set (np_sort (np_unique xs)) = set xs"
  by (simp add: np_sort_def np_unique_def)

lemma np_where_first:
  assumes "np_where bs = i # rest"
  shows "i < length bs \<and> bs ! i \<and> (\<forall>j<i. \<not> bs ! j)"
proof -
  from assms obtain us vs where
    split: "[0..<length bs] = us @ i # vs" and no: "\<forall>u\<in>set us. \<not> bs ! u" and yes: "bs ! i"
    unfolding np_where_def by (auto simp: filter_eq_Cons_iff)
  have "i \<in> set [0..<length bs]" using split by simp
  then have lt: "i < length bs" by simp
  have "length us = i"
  proof -
    have "[0..<length bs] ! length us = i" using split by simp
    moreover have "length us < length bs"
      using arg_cong[OF split, of length] by simp
    ultimately show ?thesis by simp
  qed
  then have "us = take i [0..<length bs]" using split by simp
  then have "us = [0..<i]" using lt by simp
  then show ?thesis using lt yes no by auto
qed

lemma np_min_Min:
  assumes "xs \<noteq> []"
  shows "np_min xs = Inr (Min (set xs))"
proof (cases xs)
  case Nil
  then show ?thesis using assms by simp
next
  case (Cons a list)
  have "fold min list a = Min (set (a # list))" by (rule Min.set_eq_fold[symmetric])
  then show ?thesis using Cons by simp
qed

lemma np_max_Max:
  assumes "xs \<noteq> []"
  shows "np_max xs = Inr (Max (set xs))"
proof (cases xs)
  case Nil
  then show ?thesis using assms by simp
next
  case (Cons a list)
  have "fold max list a = Max (set (a # list))" by (rule Max.set_eq_fold[symmetric])
  then show ?thesis using Cons by simp
qed

section \<open>The aggregation loops\<close>

text \<open>
  Both loops append, for every unique intensity with at least two trials and in the
  order of the unique intensities, the intensity, the proportion correct and the count.
\<close>

lemma simple_levels_loop_char:
  "simple_levels_loop us trials (x, y, n) =
     (x @ filter (\<lambda>v. 2 \<le> level_trial_count trials v) us,
      y @ map (\<lambda>v. real (level_correct_count trials v) / real (level_trial_count trials v))
              (filter (\<lambda>v. 2 \<le> level_trial_count trials v) us),
      n @ map (level_trial_count trials) (filter (\<lambda>v. 2 \<le> level_trial_count trials v) us))"
proof (induction us arbitrary: x y n)
  case Nil
  then show ?case by simp
next
  case (Cons u us)
  show ?case
    by (simp add: Cons.IH trials_at_level_count correct_at_level_count Let_def)
qed

lemma fit_levels_loop_char:
  "fit_levels_loop us trials (x, y, n) =
     (x @ filter (\<lambda>v. 2 \<le> level_trial_count trials v) us,
      y @ map (\<lambda>v. real (level_correct_count trials v) / real (level_trial_count trials v))
              (filter (\<lambda>v. 2 \<le> level_trial_count trials v) us),
      n @ map (level_trial_count trials) (filter (\<lambda>v. 2 \<le> level_trial_count trials v) us))"
proof (induction us arbitrary: x y n)
  case Nil
  then show ?case by simp
next
  case (Cons u us)
  show ?case
    by (simp add: Cons.IH trials_at_level_count correct_at_level_count Let_def)
qed

lemma simple_levels_char:
  "simple_levels trials =
     (let xs = filter (\<lambda>v. 2 \<le> level_trial_count trials v)
                 (np_sort (np_unique (cmpPx_values trials)))
      in (xs,
          map (\<lambda>v. real (level_correct_count trials v) / real (level_trial_count trials v)) xs,
          map (level_trial_count trials) xs))"
  by (simp add: simple_levels_def simple_levels_loop_char Let_def)

lemma fit_levels_char:
  "fit_levels trials =
     (let xs = filter (\<lambda>v. 2 \<le> level_trial_count trials v)
                 (np_sort (np_unique (cmpPx_values trials)))
      in (xs,
          map (\<lambda>v. real (level_correct_count trials v) / real (level_trial_count trials v)) xs,
          map (level_trial_count trials) xs))"
  by (simp add: fit_levels_def fit_levels_loop_char Let_def)

lemma simple_levels_lengths:
  assumes "simple_levels trials = (x_data, y_data, n_trials)"
  shows "length y_data = length x_data \<and> length n_trials = length x_data"
  using assms by (auto simp: simple_levels_char Let_def)

lemma simple_levels_strict:
  assumes "simple_levels trials = (x_data, y_data, n_trials)"
  shows "sorted_wrt (<) x_data"
proof -
  have "x_data = filter (\<lambda>v. 2 \<le> level_trial_count trials v)
                   (np_sort (np_unique (cmpPx_values trials)))"
    using assms by (simp add: simple_levels_char Let_def)
  then show ?thesis
    using unique_strict[of "cmpPx_values trials"] by (simp add: sorted_wrt_filter)
qed

section \<open>Interpolation\<close>

lemma interpolate_not_below:
  assumes "x1 \<le> x2" "y1 < t" "t \<le> y2"
  shows "x1 \<le> interpolate x1 y1 x2 y2 t"
proof -
  have pos: "0 < y2 - y1" using assms by simp
  have "0 \<le> (t - y1) * (x2 - x1)" using assms by simp
  then have "0 \<le> (t - y1) * (x2 - x1) / (y2 - y1)" using pos by simp
  then show ?thesis using pos by (simp add: interpolate_def)
qed

section \<open>The results of fit_psychophysical_curve\<close>

lemma fit_levels_eq_simple: "fit_levels trials = simple_levels trials"
  by (simp add: fit_levels_char simple_levels_char)

lemma fit_unfold:
  assumes "fit_levels trials = (x, y, n)"
  shows "fit_psychophysical_curve lib trials method =
     (if length (np_sort (np_unique (cmpPx_values trials))) < 4 then (Some all_none, [])
      else if length x < 4 then (Some all_none, [])
      else if method = ''logistic'' then try_except (logistic_branch lib x y n)
      else if method = ''cumulative_normal'' then try_except (cumulative_branch lib x y n)
      else (None, []))"
proof -
  have "fit_levels_loop (np_sort (np_unique (cmpPx_values trials))) trials ([], [], []) = (x, y, n)"
    using assms by (simp add: fit_levels_def)
  then show ?thesis
    unfolding fit_psychophysical_curve_def Let_def by (simp only: prod.case)
qed

lemma all_none_popt: "fit_popt all_none = None"
  by (simp add: all_none_def fit_popt_def)

lemma try_except_Some:
  assumes "try_except (r, calls) = (Some t, calls')" "fit_popt t \<noteq> None"
  shows "r = Inr t \<and> calls' = calls"
  using assms by (cases r) (auto simp: try_except_def all_none_def fit_popt_def)

lemma logistic_branch_success:
  assumes "logistic_branch lib x y n = (Inr t, calls)"
  shows "\<exists>call popt pcov. logistic_setup x y n = Inr call \<and> curve_fit lib call = Inr (popt, pcov)
           \<and> logistic_finish lib x y n popt pcov = Inr t \<and> calls = [call]"
  using assms unfolding logistic_branch_def
  by (auto split: sum.splits prod.splits)

lemma cumulative_branch_success:
  assumes "cumulative_branch lib x y n = (Inr t, calls)"
  shows "\<exists>call popt pcov. cumulative_setup x y n = Inr call \<and> curve_fit lib call = Inr (popt, pcov)
           \<and> cumulative_finish lib x y n popt pcov = Inr t \<and> calls = [call]"
  using assms unfolding cumulative_branch_def
  by (auto split: sum.splits prod.splits)

lemma logistic_finish_levels:
  assumes "logistic_finish lib x y n popt pcov = Inr t"
  shows "fit_popt t = Some popt \<and> fit_levels_returned t = (Some x, Some y, Some n)"
  using assms
  by (induction lib x y n popt pcov rule: logistic_finish.induct)
     (auto simp: try_bind_def fit_popt_def fit_levels_returned_def Let_def split: sum.splits)

lemma cumulative_finish_levels:
  assumes "cumulative_finish lib x y n popt pcov = Inr t"
  shows "fit_popt t = Some popt \<and> fit_levels_returned t = (Some x, Some y, Some n)"
  using assms
  by (induction lib x y n popt pcov rule: cumulative_finish.induct)
     (auto simp: fit_popt_def fit_levels_returned_def Let_def)


lemma fit_success_cases:
  assumes "fst (fit_psychophysical_curve lib trials method) = Some t" "fit_popt t \<noteq> None"
  shows "\<exists>x y n call popt pcov.
           fit_levels trials = (x, y, n) \<and> 4 \<le> length x
         \<and> curve_fit lib call = Inr (popt, pcov)
         \<and> (method = ''logistic'' \<and> logistic_setup x y n = Inr call
               \<and> logistic_finish lib x y n popt pcov = Inr t
            \<or> method = ''cumulative_normal'' \<and> cumulative_setup x y n = Inr call
               \<and> cumulative_finish lib x y n popt pcov = Inr t)"
proof -
  obtain x y n where lv: "fit_levels trials = (x, y, n)" by (cases "fit_levels trials")
  note unf = fit_unfold[OF lv, of lib "method"]
  have nn: "t \<noteq> all_none" using assms(2) all_none_popt by auto
  show ?thesis
  proof (cases "length (np_sort (np_unique (cmpPx_values trials))) < 4 \<or> length x < 4")
    case True
    then have "fit_psychophysical_curve lib trials method = (Some all_none, [])"
      using unf by auto
    then show ?thesis using assms(1) nn by simp
  next
    case False
    then have len: "4 \<le> length x" by simp
    show ?thesis
    proof (cases "method = ''logistic''")
      case l: True
      have e: "fit_psychophysical_curve lib trials method = try_except (logistic_branch lib x y n)"
        using unf False l by presburger
      obtain r calls where b: "logistic_branch lib x y n = (r, calls)"
        by (cases "logistic_branch lib x y n")
      obtain calls' where "try_except (r, calls) = (Some t, calls')"
        using assms(1) e b by (cases "try_except (r, calls)") simp
      then have "r = Inr t" using try_except_Some[OF _ assms(2)] by blast
      then show ?thesis using logistic_branch_success b lv len l by blast
    next
      case nl: False
      show ?thesis
      proof (cases "method = ''cumulative_normal''")
        case c: True
        have e: "fit_psychophysical_curve lib trials method = try_except (cumulative_branch lib x y n)"
          using unf False nl c by presburger
        obtain r calls where b: "cumulative_branch lib x y n = (r, calls)"
          by (cases "cumulative_branch lib x y n")
        obtain calls' where "try_except (r, calls) = (Some t, calls')"
          using assms(1) e b by (cases "try_except (r, calls)") simp
        then have "r = Inr t" using try_except_Some[OF _ assms(2)] by blast
        then show ?thesis using cumulative_branch_success b lv len c by blast
      next
        case nc: False
        have "fit_psychophysical_curve lib trials method = (None, [])"
          using unf False nl nc by presburger
        then show ?thesis using assms(1) by simp
      qed
    qed
  qed
qed


lemma fit_success_levels:
  assumes "fst (fit_psychophysical_curve lib trials method) = Some t" "fit_popt t \<noteq> None"
  shows "\<exists>x y n. fit_levels trials = (x, y, n) \<and> 4 \<le> length x
           \<and> fit_levels_returned t = (Some x, Some y, Some n)"
  using fit_success_cases[OF assms] logistic_finish_levels cumulative_finish_levels by blast

lemma threshold_guess_loop_total:
  assumes "i + length ys \<le> length xs"
  shows "\<exists>g. threshold_guess_loop i ys xs guess = Inr g"
  using assms
proof (induction ys arbitrary: i)
  case Nil
  then show ?case by simp
next
  case (Cons perf rest)
  then have "i < length xs" "Suc i + length rest \<le> length xs" by auto
  then show ?case using Cons.IH[of "Suc i"] by (simp add: getitem_def)
qed

lemma logistic_setup_total:
  assumes "length y = length x" "x \<noteq> []"
  shows "\<exists>call. logistic_setup x y n = Inr call"
proof -
  have y: "y \<noteq> []" using assms by auto
  have tg: "threshold_guess_loop 0 y x guess \<noteq> Inl e" for guess e
    using threshold_guess_loop_total[of 0 y x guess] assms(1) by auto
  show ?thesis
    unfolding logistic_setup_def
    by (simp add: np_min_Min[OF assms(2)] np_max_Max[OF assms(2)] np_min_Min[OF y]
          np_max_Max[OF y] try_bind_def Let_def tg split: sum.splits)
qed

lemma cumulative_setup_total: "\<exists>call. cumulative_setup x y n = Inr call"
  by (simp add: cumulative_setup_def Let_def)

lemma fit_levels_lengths:
  assumes "fit_levels trials = (x, y, n)"
  shows "length y = length x \<and> length n = length x"
  using assms simple_levels_lengths by (simp add: fit_levels_eq_simple)

lemma fit_levels_unique_length:
  assumes "fit_levels trials = (x, y, n)"
  shows "length x \<le> length (np_sort (np_unique (cmpPx_values trials)))"
  using assms by (auto simp: fit_levels_char Let_def)

text \<open>
  With four levels or more and one of the two method names the optimizer is called
  once; when it raises, the fit answers with the seven \<open>None\<close>.
\<close>

lemma fit_optimizer_error:
  assumes "fit_levels trials = (x, y, n)" "4 \<le> length x"
    and "method = ''logistic'' \<or> method = ''cumulative_normal''"
    and "\<forall>call. \<exists>e. curve_fit lib call = Inl e"
  shows "\<exists>call. fit_psychophysical_curve lib trials method = (Some all_none, [call])"
proof -
  have u: "\<not> length (np_sort (np_unique (cmpPx_values trials))) < 4"
    using fit_levels_unique_length[OF assms(1)] assms(2) by simp
  have len: "length y = length x" "x \<noteq> []" using fit_levels_lengths[OF assms(1)] assms(2) by auto
  note unf = fit_unfold[OF assms(1), of lib "method"]
  show ?thesis
  proof (cases "method = ''logistic''")
    case True
    obtain call where c: "logistic_setup x y n = Inr call" using logistic_setup_total[OF len] by blast
    obtain e where "curve_fit lib call = Inl e" using assms(4) by blast
    then have "logistic_branch lib x y n = (Inl e, [call])" by (simp add: logistic_branch_def c)
    then have "fit_psychophysical_curve lib trials method = (Some all_none, [call])"
      using unf u assms(2) True by (simp add: try_except_def)
    then show ?thesis by blast
  next
    case False
    then have m: "method = ''cumulative_normal''" using assms(3) by simp
    obtain call where c: "cumulative_setup x y n = Inr call" using cumulative_setup_total by blast
    obtain e where "curve_fit lib call = Inl e" using assms(4) by blast
    then have "cumulative_branch lib x y n = (Inl e, [call])" by (simp add: cumulative_branch_def c)
    then have "fit_psychophysical_curve lib trials method = (Some all_none, [call])"
      using unf u assms(2) m by (simp add: try_except_def)
    then show ?thesis by blast
  qed
qed

lemma logistic_threshold_value:
  assumes "x \<noteq> []"
  shows "logistic_threshold lib a b c d x =
           Inr (if a < float_0_707 \<and> float_0_707 < d \<and> 0 < b then
                  (let v = float_sub lib (Num c)
                             (float_div lib
                                (np_log lib
                                   (float_sub lib
                                      (float_div lib
                                         (float_sub lib (Num d) (Num a))
                                         (float_sub lib (Num float_0_707) (Num a)))
                                      (Num 1)))
                                (Num b))
                   in if float_less v (Num (Min (set x))) \<or> float_less (Num (Max (set x))) v
                      then NaN else v)
                else NaN)"
  unfolding logistic_threshold_def
  by (simp add: np_min_Min[OF assms] np_max_Max[OF assms] try_bind_def Let_def)

text \<open>
  Where the three float operations compute without rounding, the value compared is the
  inversion formula \<open>c - ln ((d - a) / (0.707 - a) - 1) / b\<close> itself.
\<close>

lemma exact_threshold_formula:
  assumes "a < float_0_707" "float_0_707 < d" "0 < b"
  shows "exact_sub (Num c)
           (exact_div
              (exact_log
                 (exact_sub
                    (exact_div (exact_sub (Num d) (Num a)) (exact_sub (Num float_0_707) (Num a)))
                    (Num 1)))
              (Num b))
         = Num (c - ln ((d - a) / (float_0_707 - a) - 1) / b)"
proof -
  have "1 < (d - a) / (float_0_707 - a)" using assms by simp
  then show ?thesis using assms by simp
qed

lemma cmpPx_values_empty: "cmpPx_values trials = [] \<longleftrightarrow> trials = []"
  by (simp add: cmpPx_values_def)

section \<open>The functions on the sample tables\<close>

lemma sample_two_levels_eval:
  "simple_levels sample_two_levels = ([1, 2], [0, 1], [2, 2])"
  by (simp add: simple_levels_char sample_two_levels_def Let_def np_sort_def np_unique_def
        cmpPx_values_def level_trial_count_def level_correct_count_def)

lemma sample_three_levels_eval:
  "simple_levels sample_three_levels = ([1, 2, 3], [0, 1/2, 1], [2, 2, 2])"
  by (simp add: simple_levels_char sample_three_levels_def Let_def np_sort_def np_unique_def
        cmpPx_values_def level_trial_count_def level_correct_count_def)

lemma sample_four_levels_eval:
  "simple_levels sample_four_levels = ([1, 2, 3, 4], [0, 1/2, 1, 1], [2, 2, 2, 2])"
  by (simp add: simple_levels_char sample_four_levels_def Let_def np_sort_def np_unique_def
        cmpPx_values_def level_trial_count_def level_correct_count_def)

lemma sample_four_unique:
  "np_sort (np_unique (cmpPx_values sample_four_levels)) = [1, 2, 3, 4]"
  by (simp add: sample_four_levels_def np_sort_def np_unique_def cmpPx_values_def)

lemma sample_logistic_setup:
  "\<exists>call. logistic_setup [1, 2, 3, 4] [0, 1/2, 1, 1] [2, 2, 2, 2] = Inr call"
  by (simp add: logistic_setup_def try_bind_def getitem_def Let_def)

lemma sample_fit_logistic:
  "\<exists>t. fst (fit_psychophysical_curve (constant_scipy [1/2, 1, 5/2, 457/500] NaN)
              sample_four_levels ''logistic'') = Some t
       \<and> fit_popt t = Some [1/2, 1, 5/2, 457/500]
       \<and> fit_levels_returned t = (Some [1, 2, 3, 4], Some [0, 1/2, 1, 1], Some [2, 2, 2, 2])"
proof -
  have lv: "fit_levels sample_four_levels = ([1, 2, 3, 4], [0, 1/2, 1, 1], [2, 2, 2, 2])"
    by (simp add: fit_levels_eq_simple sample_four_levels_eval)
  obtain call where c: "logistic_setup [1, 2, 3, 4] [0, 1/2, 1, 1] [2, 2, 2, 2] = Inr call"
    using sample_logistic_setup by blast
  have ne: "[1, 2, 3, 4 :: real] \<noteq> []" by simp
  show ?thesis
    by (simp add: fit_unfold[OF lv] sample_four_unique logistic_branch_def c constant_scipy_def
          try_except_def logistic_threshold_value[OF ne] try_bind_def fit_popt_def
          fit_levels_returned_def del: set_simps)
qed

lemma sample_fit_logistic_inverted:
  "\<exists>t. fst (fit_psychophysical_curve
              (constant_scipy [1/2, 1, 5/2, 4116290059416633 / 4503599627370496] NaN)
              sample_four_levels ''logistic'') = Some t
       \<and> fit_popt t = Some [1/2, 1, 5/2, 4116290059416633 / 4503599627370496]"
proof -
  have lv: "fit_levels sample_four_levels = ([1, 2, 3, 4], [0, 1/2, 1, 1], [2, 2, 2, 2])"
    by (simp add: fit_levels_eq_simple sample_four_levels_eval)
  obtain call where c: "logistic_setup [1, 2, 3, 4] [0, 1/2, 1, 1] [2, 2, 2, 2] = Inr call"
    using sample_logistic_setup by blast
  have ne: "[1, 2, 3, 4 :: real] \<noteq> []" by simp
  show ?thesis
    by (simp add: fit_unfold[OF lv] sample_four_unique logistic_branch_def c constant_scipy_def
          try_except_def logistic_threshold_value[OF ne] try_bind_def fit_popt_def
          del: set_simps)
qed

section \<open>The threshold as a function of the levels\<close>

lemma np_any_map: "np_any (map P ys) \<longleftrightarrow> (\<exists>v\<in>set ys. P v)"
  by (simp add: np_any_def list_ex_iff)

lemma np_all_map: "np_all (map P ys) \<longleftrightarrow> (\<forall>v\<in>set ys. P v)"
  by (simp add: np_all_def list_all_iff)

lemma np_where_nonempty:
  assumes "np_any bs"
  shows "np_where bs \<noteq> []"
proof -
  from assms have "True \<in> set bs" by (auto simp: np_any_def list_ex_iff)
  then obtain i where "i < length bs" "bs ! i" by (auto simp: in_set_conv_nth)
  then have "i \<in> set (np_where bs)" by (simp add: np_where_def)
  then show ?thesis by auto
qed

lemma transition_index:
  fixes t :: real
  assumes "\<exists>v\<in>set y. t \<le> v"
  shows "\<exists>i. getitem (np_where (map (\<lambda>v. t \<le> v) y)) 0 = Inr i
             \<and> i < length y \<and> t \<le> y ! i \<and> (\<forall>j<i. y ! j < t)"
proof -
  let ?above = "map (\<lambda>v. t \<le> v) y"
  have "np_any ?above" using assms by (simp add: np_any_map)
  then obtain i rest where w: "np_where ?above = i # rest"
    using np_where_nonempty by (cases "np_where ?above") auto
  from np_where_first[OF w] have i: "i < length y" "t \<le> y ! i" and
    before: "\<forall>j<i. \<not> ?above ! j" by auto
  have "\<forall>j<i. y ! j < t"
  proof (intro allI impI)
    fix j assume "j < i"
    then have "\<not> ?above ! j" "j < length y" using before i by auto
    then show "y ! j < t" by simp
  qed
  moreover have "getitem (np_where ?above) 0 = Inr i" by (simp add: w getitem_def)
  ultimately show ?thesis using i by blast
qed

lemma threshold_interpolated:
  assumes len: "length y = length x" "3 \<le> length x"
    and below: "\<exists>v\<in>set y. v < t" and above: "\<exists>v\<in>set y. t \<le> v"
    and idx: "getitem (np_where (map (\<lambda>v. t \<le> v) y)) 0 = Inr i" "i < length y"
  shows "threshold_from_levels x y t =
           Inr (Num (if i = 0 then x ! 0
                     else interpolate (x ! (i - 1)) (y ! (i - 1)) (x ! i) (y ! i) t))"
proof -
  have b: "np_any (map (\<lambda>v. v < t) y)" using below by (simp add: np_any_map)
  have a: "np_any (map (\<lambda>v. t \<le> v) y)" using above by (simp add: np_any_map)
  show ?thesis
  proof (cases "i = 0")
    case True
    then show ?thesis
      using len b a idx unfolding threshold_from_levels_def Let_def
      by (simp add: getitem_def)
  next
    case False
    then have "i - 1 < length x" "i < length x" "i - 1 < length y" using idx(2) len by auto
    then show ?thesis
      using len b a idx False unfolding threshold_from_levels_def Let_def
      by (simp add: getitem_def)
  qed
qed

lemma threshold_all_above:
  assumes "3 \<le> length x" "\<forall>v\<in>set y. t \<le> v"
  shows "threshold_from_levels x y t = Inr (Num (Min (set x) - Min (set x) * 0.1))"
proof -
  have "\<not> np_any (map (\<lambda>v. v < t) y)" using assms(2) by (auto simp: np_any_map)
  moreover have "np_all (map (\<lambda>v. t \<le> v) y)" using assms(2) by (simp add: np_all_map)
  moreover have "np_min x = Inr (Min (set x))" using assms(1) by (intro np_min_Min) auto
  ultimately show ?thesis
    using assms(1) unfolding threshold_from_levels_def Let_def by simp
qed

lemma threshold_all_below:
  assumes "length y = length x" "3 \<le> length x" "\<forall>v\<in>set y. v < t"
  shows "threshold_from_levels x y t = Inr (Num (Max (set x) + Max (set x) * 0.1))"
proof -
  have "\<not> np_any (map (\<lambda>v. t \<le> v) y)" using assms(3) by (auto simp: np_any_map)
  moreover have "\<not> np_all (map (\<lambda>v. t \<le> v) y)"
  proof -
    have "y \<noteq> []" using assms(1,2) by auto
    then obtain v where v: "v \<in> set y" by (cases y) auto
    then have "\<not> t \<le> v" using assms(3) by auto
    then show ?thesis using v by (auto simp: np_all_map)
  qed
  moreover have "np_max x = Inr (Max (set x))" using assms(2) by (intro np_max_Max) auto
  ultimately show ?thesis
    using assms(2) unfolding threshold_from_levels_def Let_def by simp
qed

lemma threshold_total:
  assumes "length y = length x"
  shows "\<exists>thr. threshold_from_levels x y t = Inr thr"
proof (cases "length x < 3")
  case True
  then show ?thesis by (simp add: threshold_from_levels_def)
next
  case False
  then have len: "3 \<le> length x" by simp
  show ?thesis
  proof (cases "\<exists>v\<in>set y. t \<le> v")
    case above: True
    show ?thesis
    proof (cases "\<exists>v\<in>set y. v < t")
      case True
      obtain i where "getitem (np_where (map (\<lambda>v. t \<le> v) y)) 0 = Inr i" "i < length y"
        using transition_index[OF above] by blast
      then show ?thesis using threshold_interpolated[OF assms len True above] by blast
    next
      case False
      then have "\<forall>v\<in>set y. t \<le> v" by auto
      then show ?thesis using threshold_all_above[OF len] by blast
    qed
  next
    case False
    then have "\<forall>v\<in>set y. v < t" by auto
    then show ?thesis using threshold_all_below[OF assms len] by blast
  qed
qed

lemma simple_threshold_estimate_unfold:
  assumes "simple_levels trials = (x, y, n)" "threshold_from_levels x y t = Inr thr"
  shows "simple_threshold_estimate trials t = Inr (thr, x, y, n)"
  using assms by (simp add: simple_threshold_estimate_def)

lemma simple_threshold_estimate_total:
  "\<exists>thr x y n. simple_levels trials = (x, y, n)
      \<and> simple_threshold_estimate trials t = Inr (thr, x, y, n)"
proof -
  obtain x y n where lv: "simple_levels trials = (x, y, n)" by (cases "simple_levels trials")
  then have "length y = length x" using simple_levels_lengths by blast
  then obtain thr where "threshold_from_levels x y t = Inr thr" using threshold_total by blast
  then show ?thesis using lv simple_threshold_estimate_unfold by blast
qed

subsection \<open>The estimators on the sample tables\<close>

lemma sample_from_zero_eval:
  "simple_levels sample_from_zero = ([0, 1, 2], [1, 1, 1], [2, 2, 2])"
  by (simp add: simple_levels_char sample_from_zero_def Let_def np_sort_def np_unique_def
        cmpPx_values_def level_trial_count_def level_correct_count_def)

lemma sample_transition_idx:
  "getitem (np_where (map (\<lambda>y. 0.707 \<le> y) [0, 1/2, 1 :: real])) 0 = Inr 2"
  by (simp add: np_where_def getitem_def)

lemma scenario_transition_idx:
  "getitem (np_where (map (\<lambda>y. 0.707 \<le> y) [0.5, 0.6, 0.75, 0.9, 0.95 :: real])) 0 = Inr 2"
  by (simp add: np_where_def getitem_def)

lemma scenario_value:
  "threshold_from_levels [400, 450, 500, 550, 600] [0.5, 0.6, 0.75, 0.9, 0.95] 0.707
     = Inr (Num (1457 / 3))"
proof -
  have "threshold_from_levels [400, 450, 500, 550, 600] [0.5, 0.6, 0.75, 0.9, 0.95] 0.707
     = Inr (Num (if (2::nat) = 0 then [400, 450, 500, 550, 600] ! 0
                 else interpolate ([400, 450, 500, 550, 600] ! (2 - 1))
                        ([0.5, 0.6, 0.75, 0.9, 0.95] ! (2 - 1))
                        ([400, 450, 500, 550, 600] ! 2) ([0.5, 0.6, 0.75, 0.9, 0.95] ! 2) 0.707))"
    by (rule threshold_interpolated[OF _ _ _ _ scenario_transition_idx]) simp_all
  then show ?thesis by (simp add: interpolate_def)
qed

lemma sample_three_fit_levels:
  "fit_levels sample_three_levels = ([1, 2, 3], [0, 1/2, 1], [2, 2, 2])"
  by (simp add: fit_levels_eq_simple sample_three_levels_eval)

lemma sample_four_fit_levels:
  "fit_levels sample_four_levels = ([1, 2, 3, 4], [0, 1/2, 1, 1], [2, 2, 2, 2])"
  by (simp add: fit_levels_eq_simple sample_four_levels_eval)

lemma sample_fit_cumulative:
  "\<exists>t. fst (fit_psychophysical_curve (constant_scipy [10, 1] (Num (21/2)))
              sample_four_levels ''cumulative_normal'') = Some t
       \<and> fit_popt t = Some [10, 1]"
  by (simp add: fit_unfold[OF sample_four_fit_levels] sample_four_unique cumulative_branch_def
        cumulative_setup_def constant_scipy_def try_except_def fit_popt_def Let_def)

lemma sample_raising_fit:
  "\<exists>call. fit_psychophysical_curve raising_scipy sample_four_levels ''logistic''
            = (Some all_none, [call])"
proof -
  have a: "4 \<le> length [1, 2, 3, 4 :: real]" by simp
  have b: "\<forall>call. \<exists>e. curve_fit raising_scipy call = Inl e" by (simp add: raising_scipy_def)
  show ?thesis by (rule fit_optimizer_error[OF sample_four_fit_levels a _ b]) simp
qed

section \<open>Rounding to float64\<close>

lemma pow2_powr: "pow2 k = 2 powr of_int k"
  by (simp add: pow2_def powr_real_of_int field_simps)

lemma binary64_at:
  assumes "x \<noteq> 0" "pow2 k \<le> \<bar>x\<bar>" "\<bar>x\<bar> < pow2 (k + 1)"
  shows "binary64 x = of_int (round_half_even (x / pow2 (k - 52))) * pow2 (k - 52)"
proof -
  have pos: "0 < \<bar>x\<bar>" using assms(1) by simp
  have "of_int k \<le> log 2 \<bar>x\<bar>" using assms(2) pos by (simp add: le_log_iff pow2_powr)
  moreover have "log 2 \<bar>x\<bar> < of_int k + 1"
    using assms(3) pos by (simp add: log_less_iff pow2_powr)
  ultimately have "\<lfloor>log 2 \<bar>x\<bar>\<rfloor> = k" by (intro floor_unique) simp_all
  then show ?thesis using assms(1) by (simp add: binary64_def Let_def)
qed

lemma binary64_half: "binary64 (1/2) = 1/2"
  using binary64_at[of "1/2" "-1"] by (simp add: round_half_even_def pow2_def Let_def)

lemma binary64_three_tenths: "binary64 (3/10) = 5404319552844595 / 2 ^ 54"
  using binary64_at[of "3/10" "-2"] by (simp add: round_half_even_def pow2_def Let_def)

lemma binary64_nine_tenths: "binary64 (9/10) = 8106479329266893 / 2 ^ 53"
  using binary64_at[of "9/10" "-1"] by (simp add: round_half_even_def pow2_def Let_def)

lemma binary64_difference:
  "binary64 (8106479329266893 / 2 ^ 53 - 5404319552844595 / 2 ^ 54) = 5404319552844596 / 2 ^ 53"
  using binary64_at[of "8106479329266893 / 2 ^ 53 - 5404319552844595 / 2 ^ 54" "-1"]
  by (simp add: round_half_even_def pow2_def Let_def)

lemma binary64_product:
  "binary64 (1/2 * (5404319552844596 / 2 ^ 53)) = 5404319552844596 / 2 ^ 54"
  using binary64_at[of "1/2 * (5404319552844596 / 2 ^ 53)" "-2"]
  by (simp add: round_half_even_def pow2_def Let_def)

lemma binary64_quotient:
  "binary64 (5404319552844596 / 2 ^ 54 / (1/2)) = 5404319552844596 / 2 ^ 53"
  using binary64_at[of "5404319552844596 / 2 ^ 54 / (1/2)" "-1"]
  by (simp add: round_half_even_def pow2_def Let_def)

lemma binary64_sum:
  "binary64 (5404319552844595 / 2 ^ 54 + 5404319552844596 / 2 ^ 53) = 8106479329266894 / 2 ^ 53"
  using binary64_at[of "5404319552844595 / 2 ^ 54 + 5404319552844596 / 2 ^ 53" "-1"]
  by (simp add: round_half_even_def pow2_def Let_def)

section \<open>The two copies of the aggregation\<close>

text \<open>
  Claim C10.  \<open>simple_threshold_estimate\<close> and \<open>fit_psychophysical_curve\<close> carry the
  same aggregation inline: on every trial table and from every loop state the two loops
  compute the same three lists, so do the two aggregations as a whole, and whenever the
  fit hands its levels back to the caller (it returned parameters) they are the lists
  \<open>simple_threshold_estimate\<close> computes and returns.
\<close>

theorem aggregation_identical:
  "fit_levels_loop us trials acc = simple_levels_loop us trials acc
   \<and> fit_levels trials = simple_levels trials
   \<and> (\<forall>t. fst (fit_psychophysical_curve lib trials method) = Some t \<and> fit_popt t \<noteq> None
        \<longrightarrow> (case simple_levels trials of
               (x_data, y_data, n_trials) \<Rightarrow>
                 fit_levels_returned t = (Some x_data, Some y_data, Some n_trials)))"
proof -
  have a: "fit_levels_loop us trials acc = simple_levels_loop us trials acc"
    by (cases acc) (simp add: fit_levels_loop_char simple_levels_loop_char)
  have b: "fit_levels trials = simple_levels trials" by (rule fit_levels_eq_simple)
  have c: "\<forall>t. fst (fit_psychophysical_curve lib trials method) = Some t \<and> fit_popt t \<noteq> None
        \<longrightarrow> (case simple_levels trials of
               (x_data, y_data, n_trials) \<Rightarrow>
                 fit_levels_returned t = (Some x_data, Some y_data, Some n_trials))"
    using fit_success_levels b by fastforce
  show ?thesis using a b c by blast
qed

theorem aggregation_identical_witness:
  "\<exists>t. fst (fit_psychophysical_curve (constant_scipy [1/2, 1, 5/2, 457/500] NaN)
              sample_four_levels ''logistic'') = Some t
       \<and> fit_popt t \<noteq> None
       \<and> simple_levels sample_four_levels = ([1, 2, 3, 4], [0, 1/2, 1, 1], [2, 2, 2, 2])
       \<and> fit_levels_returned t = (Some [1, 2, 3, 4], Some [0, 1/2, 1, 1], Some [2, 2, 2, 2])"
proof -
  obtain t where t: "fst (fit_psychophysical_curve (constant_scipy [1/2, 1, 5/2, 457/500] NaN)
              sample_four_levels ''logistic'') = Some t \<and> fit_popt t \<noteq> None"
    using sample_fit_logistic by auto
  note w = aggregation_identical[of "[]" sample_four_levels "([], [], [])"
            "constant_scipy [1/2, 1, 5/2, 457/500] NaN" "''logistic''"]
  have "case simple_levels sample_four_levels of
          (x_data, y_data, n_trials) \<Rightarrow>
            fit_levels_returned t = (Some x_data, Some y_data, Some n_trials)"
    using w[THEN conjunct2, THEN conjunct2, rule_format, OF t] .
  then have "fit_levels_returned t = (Some [1, 2, 3, 4], Some [0, 1/2, 1, 1], Some [2, 2, 2, 2])"
    by (simp add: sample_four_levels_eval)
  then show ?thesis using t sample_four_levels_eval by blast
qed

section \<open>What the aggregation emits\<close>

text \<open>
  Claim C5.  On every trial table the aggregation (either copy) emits its levels in
  strictly ascending intensity, so no two levels share an intensity; every level has
  at least two trials; the count of a level is the number of trials at exactly its
  intensity and its proportion correct is the number of correct ones among them
  divided by that count.  The levels are all the intensities with at least two trials.
\<close>

theorem aggregation_invariant:
  assumes "simple_levels trials = (x_data, y_data, n_trials)"
  shows "fit_levels trials = (x_data, y_data, n_trials)
       \<and> sorted_wrt (<) x_data \<and> distinct x_data
       \<and> length y_data = length x_data \<and> length n_trials = length x_data
       \<and> (\<forall>i<length x_data.
            2 \<le> n_trials ! i
          \<and> n_trials ! i = level_trial_count trials (x_data ! i)
          \<and> y_data ! i = real (level_correct_count trials (x_data ! i)) / real (n_trials ! i))
       \<and> set x_data = {v \<in> set (cmpPx_values trials). 2 \<le> level_trial_count trials v}"
proof -
  let ?q = "\<lambda>v. 2 \<le> level_trial_count trials v"
  have x: "x_data = filter ?q (np_sort (np_unique (cmpPx_values trials)))"
    and y: "y_data = map (\<lambda>v. real (level_correct_count trials v) / real (level_trial_count trials v)) x_data"
    and n: "n_trials = map (level_trial_count trials) x_data"
    using assms by (auto simp: simple_levels_char Let_def)
  have fit: "fit_levels trials = (x_data, y_data, n_trials)"
    using x y n by (simp add: fit_levels_char Let_def)
  have strict: "sorted_wrt (<) x_data" using assms by (rule simple_levels_strict)
  then have dist: "distinct x_data" by (simp add: strict_sorted_iff)
  have q: "\<forall>v\<in>set x_data. ?q v" using x by simp
  have per: "\<forall>i<length x_data.
            2 \<le> n_trials ! i
          \<and> n_trials ! i = level_trial_count trials (x_data ! i)
          \<and> y_data ! i = real (level_correct_count trials (x_data ! i)) / real (n_trials ! i)"
    using q y n by simp
  have st: "set x_data = {v \<in> set (cmpPx_values trials). ?q v}"
    using x by (auto simp: unique_set)
  show ?thesis using fit strict dist y n per st by simp
qed

theorem aggregation_invariant_witness:
  "simple_levels sample_three_levels = ([1, 2, 3], [0, 1/2, 1], [2, 2, 2])
   \<and> fit_levels sample_three_levels = ([1, 2, 3], [0, 1/2, 1], [2, 2, 2])
   \<and> sorted_wrt (<) [1, 2, 3 :: real]
   \<and> [2, 2, 2] ! 1 = level_trial_count sample_three_levels ([1, 2, 3] ! 1)"
proof -
  note w = aggregation_invariant[OF sample_three_levels_eval]
  have a: "fit_levels sample_three_levels = ([1, 2, 3], [0, 1/2, 1], [2, 2, 2])"
    using w by (rule conjunct1)
  have b: "sorted_wrt (<) [1, 2, 3 :: real]"
    using w[THEN conjunct2, THEN conjunct1] .
  have c: "\<forall>i<length [1, 2, 3 :: real].
            2 \<le> [2, 2, 2 :: nat] ! i
          \<and> [2, 2, 2] ! i = level_trial_count sample_three_levels ([1, 2, 3] ! i)
          \<and> [0, 1/2, 1] ! i
              = real (level_correct_count sample_three_levels ([1, 2, 3] ! i)) / real ([2, 2, 2 :: nat] ! i)"
    using w[THEN conjunct2, THEN conjunct2, THEN conjunct2, THEN conjunct2, THEN conjunct2,
            THEN conjunct1] .
  have lt: "(1::nat) < length [1, 2, 3 :: real]" by simp
  have d: "[2, 2, 2] ! 1 = level_trial_count sample_three_levels ([1, 2, 3] ! 1)"
    using c[rule_format, OF lt] by blast
  show ?thesis using sample_three_levels_eval a b d by (intro conjI)
qed

section \<open>The interpolated threshold\<close>

text \<open>
  Claim C1, as amended.  With fewer than three levels \<open>simple_threshold_estimate\<close>
  returns \<open>nan\<close>.  With at least three levels, one of them with a proportion correct
  strictly below the target and one at or above it, it returns a number; with \<open>i\<close> the
  first level at or above the target, that number is the first level's intensity when
  \<open>i\<close> is the first level, and is not below the intensity of level \<open>i - 1\<close> otherwise.
\<close>

theorem interpolated_threshold_lower_bracket:
  assumes "simple_levels trials = (x_data, y_data, n_trials)"
  shows "(length x_data < 3 \<longrightarrow>
            simple_threshold_estimate trials target = Inr (NaN, x_data, y_data, n_trials))
       \<and> (3 \<le> length x_data \<and> (\<exists>y\<in>set y_data. y < target) \<and> (\<exists>y\<in>set y_data. target \<le> y) \<longrightarrow>
            (\<exists>i v. i < length y_data \<and> target \<le> y_data ! i \<and> (\<forall>j<i. y_data ! j < target)
               \<and> simple_threshold_estimate trials target = Inr (Num v, x_data, y_data, n_trials)
               \<and> (if i = 0 then v = x_data ! 0 else x_data ! (i - 1) \<le> v)))"
proof (intro conjI impI)
  assume "length x_data < 3"
  then have "threshold_from_levels x_data y_data target = Inr NaN"
    by (simp add: threshold_from_levels_def)
  then show "simple_threshold_estimate trials target = Inr (NaN, x_data, y_data, n_trials)"
    using assms by (rule simple_threshold_estimate_unfold[rotated])
next
  assume h: "3 \<le> length x_data \<and> (\<exists>y\<in>set y_data. y < target) \<and> (\<exists>y\<in>set y_data. target \<le> y)"
  then have three: "3 \<le> length x_data" and below: "\<exists>y\<in>set y_data. y < target"
    and above: "\<exists>y\<in>set y_data. target \<le> y" by blast+
  have len: "length y_data = length x_data" using assms simple_levels_lengths by blast
  obtain i where idx: "getitem (np_where (map (\<lambda>v. target \<le> v) y_data)) 0 = Inr i"
    and i: "i < length y_data" "target \<le> y_data ! i" and before: "\<forall>j<i. y_data ! j < target"
    using transition_index[OF above] by blast
  define v where "v = (if i = 0 then x_data ! 0
                       else interpolate (x_data ! (i - 1)) (y_data ! (i - 1)) (x_data ! i) (y_data ! i) target)"
  have "threshold_from_levels x_data y_data target = Inr (Num v)"
    unfolding v_def by (rule threshold_interpolated[OF len three below above idx i(1)])
  then have est: "simple_threshold_estimate trials target = Inr (Num v, x_data, y_data, n_trials)"
    using assms by (rule simple_threshold_estimate_unfold[rotated])
  have br: "if i = 0 then v = x_data ! 0 else x_data ! (i - 1) \<le> v"
  proof (cases "i = 0")
    case True
    then show ?thesis by (simp add: v_def)
  next
    case False
    have "sorted_wrt (<) x_data" using assms by (rule simple_levels_strict)
    moreover have "i - 1 < i" "i < length x_data" using False i(1) len by auto
    ultimately have "x_data ! (i - 1) < x_data ! i" by (rule sorted_wrt_nth_less)
    then have "x_data ! (i - 1) \<le> x_data ! i" by simp
    moreover have "y_data ! (i - 1) < target" using before False by simp
    ultimately show ?thesis
      using interpolate_not_below[of "x_data ! (i - 1)" "x_data ! i" "y_data ! (i - 1)" target
              "y_data ! i"] i(2) False by (simp add: v_def)
  qed
  show "\<exists>i v. i < length y_data \<and> target \<le> y_data ! i \<and> (\<forall>j<i. y_data ! j < target)
               \<and> simple_threshold_estimate trials target = Inr (Num v, x_data, y_data, n_trials)
               \<and> (if i = 0 then v = x_data ! 0 else x_data ! (i - 1) \<le> v)"
    using i before est br by blast
qed

theorem interpolated_threshold_lower_bracket_witness:
  "simple_levels sample_three_levels = ([1, 2, 3], [0, 1/2, 1], [2, 2, 2])
   \<and> (\<exists>i v. i < length [0, 1/2, 1 :: real] \<and> 0.707 \<le> [0, 1/2, 1 :: real] ! i
          \<and> (\<forall>j<i. [0, 1/2, 1 :: real] ! j < 0.707)
          \<and> simple_threshold_estimate sample_three_levels 0.707
               = Inr (Num v, [1, 2, 3], [0, 1/2, 1], [2, 2, 2])
          \<and> (if i = 0 then v = [1, 2, 3] ! 0 else [1, 2, 3] ! (i - 1) \<le> v))
   \<and> simple_levels sample_two_levels = ([1, 2], [0, 1], [2, 2])
   \<and> simple_threshold_estimate sample_two_levels 0.707 = Inr (NaN, [1, 2], [0, 1], [2, 2])"
proof -
  have a: "3 \<le> length [1, 2, 3 :: real] \<and> (\<exists>y\<in>set [0, 1/2, 1 :: real]. y < 0.707)
             \<and> (\<exists>y\<in>set [0, 1/2, 1 :: real]. 0.707 \<le> y)" by simp
  have b: "length [1, 2 :: real] < 3" by simp
  note w3 = interpolated_threshold_lower_bracket[OF sample_three_levels_eval, of "0.707",
              THEN conjunct2, THEN mp, OF a]
  note w2 = interpolated_threshold_lower_bracket[OF sample_two_levels_eval, of "0.707",
              THEN conjunct1, THEN mp, OF b]
  show ?thesis
    using w3 w2 sample_three_levels_eval sample_two_levels_eval by (intro conjI)
qed

text \<open>
  With two levels, one below and one at or above the target, the function returns
  \<open>nan\<close>: fewer than three levels are not interpolated.
\<close>

theorem two_levels_estimate_nan:
  "simple_levels sample_two_levels = ([1, 2], [0, 1], [2, 2])
   \<and> (0 :: real) < 0.707 \<and> (0.707 :: real) \<le> 1
   \<and> simple_threshold_estimate sample_two_levels 0.707 = Inr (NaN, [1, 2], [0, 1], [2, 2])"
  by (simp add: sample_two_levels_eval simple_threshold_estimate_def threshold_from_levels_def)

text \<open>
  No upper bracket is stated above.  In exact arithmetic the interpolated value is at
  most the intensity of the first level at or above the target; with the rounding of
  float64 it can be the next float above it.  Between the levels \<open>(0.3, 0)\<close> and
  \<open>(0.9, 0.5)\<close> with target \<open>0.5\<close>, in floats, line 297 returns
  \<open>8106479329266894 / 2^53\<close>, one unit in the last place above the float of \<open>0.9\<close>.
\<close>

theorem interpolation_rounds_above_level:
  "binary64 (3/10) = 5404319552844595 / 2 ^ 54
   \<and> binary64 (9/10) = 8106479329266893 / 2 ^ 53
   \<and> interpolate_binary64 (5404319552844595 / 2 ^ 54) 0 (8106479329266893 / 2 ^ 53) (1/2) (1/2)
     = 8106479329266894 / 2 ^ 53
   \<and> (8106479329266893 / 2 ^ 53 :: real) < 8106479329266894 / 2 ^ 53
   \<and> interpolate (5404319552844595 / 2 ^ 54) 0 (8106479329266893 / 2 ^ 53) (1/2) (1/2)
     = 8106479329266893 / 2 ^ 53"
proof -
  have "interpolate_binary64 (5404319552844595 / 2 ^ 54) 0 (8106479329266893 / 2 ^ 53) (1/2) (1/2)
     = 8106479329266894 / 2 ^ 53"
    unfolding interpolate_binary64_def
    by (simp only: diff_zero binary64_half binary64_difference binary64_product
          binary64_quotient binary64_sum) simp
  moreover have "interpolate (5404319552844595 / 2 ^ 54) 0 (8106479329266893 / 2 ^ 53) (1/2) (1/2)
     = 8106479329266893 / 2 ^ 53"
    by (simp add: interpolate_def)
  ultimately show ?thesis
    using binary64_three_tenths binary64_nine_tenths by simp
qed

text \<open>
  Claim C9.  Whenever the interpolation formula is evaluated (at least three levels,
  one strictly below the target, one at or above it, and the transition index, the
  first entry of \<open>np.where(above_target)[0]\<close>, is not 0), the level before the
  transition is strictly below the target and the transition level is at or above it.
  The divisor \<open>y2 - y1\<close> is therefore strictly positive, and the function returns the
  value of the interpolation formula, never the midpoint of the \<open>else\<close> branch.
\<close>

theorem interpolation_divisor_positive:
  assumes "simple_levels trials = (x_data, y_data, n_trials)"
    and "3 \<le> length x_data"
    and "\<exists>y\<in>set y_data. y < target"
    and "\<exists>y\<in>set y_data. target \<le> y"
    and "getitem (np_where (map (\<lambda>y. target \<le> y) y_data)) 0 = Inr transition_idx"
    and "transition_idx \<noteq> 0"
  shows "y_data ! (transition_idx - 1) < target
       \<and> target \<le> y_data ! transition_idx
       \<and> 0 < y_data ! transition_idx - y_data ! (transition_idx - 1)
       \<and> simple_threshold_estimate trials target =
           Inr (Num (x_data ! (transition_idx - 1)
                     + (target - y_data ! (transition_idx - 1))
                       * (x_data ! transition_idx - x_data ! (transition_idx - 1))
                       / (y_data ! transition_idx - y_data ! (transition_idx - 1))),
                x_data, y_data, n_trials)"
proof -
  have len: "length y_data = length x_data" using assms(1) simple_levels_lengths by blast
  obtain i where idx: "getitem (np_where (map (\<lambda>v. target \<le> v) y_data)) 0 = Inr i"
    and i: "i < length y_data" "target \<le> y_data ! i" and before: "\<forall>j<i. y_data ! j < target"
    using transition_index[OF assms(4)] by blast
  have same: "i = transition_idx" using idx assms(5) by simp
  have y1: "y_data ! (transition_idx - 1) < target" using before same assms(6) by simp
  have y2: "target \<le> y_data ! transition_idx" using i(2) same by simp
  have ne: "y_data ! transition_idx \<noteq> y_data ! (transition_idx - 1)" using y1 y2 by simp
  have "threshold_from_levels x_data y_data target =
          Inr (Num (interpolate (x_data ! (transition_idx - 1)) (y_data ! (transition_idx - 1))
                      (x_data ! transition_idx) (y_data ! transition_idx) target))"
    using threshold_interpolated[OF len assms(2,3,4) idx i(1)] same assms(6) by simp
  then have "threshold_from_levels x_data y_data target =
           Inr (Num (x_data ! (transition_idx - 1)
                     + (target - y_data ! (transition_idx - 1))
                       * (x_data ! transition_idx - x_data ! (transition_idx - 1))
                       / (y_data ! transition_idx - y_data ! (transition_idx - 1))))"
    using ne by (simp add: interpolate_def)
  then have "simple_threshold_estimate trials target =
           Inr (Num (x_data ! (transition_idx - 1)
                     + (target - y_data ! (transition_idx - 1))
                       * (x_data ! transition_idx - x_data ! (transition_idx - 1))
                       / (y_data ! transition_idx - y_data ! (transition_idx - 1))),
                x_data, y_data, n_trials)"
    using assms(1) by (rule simple_threshold_estimate_unfold[rotated])
  then show ?thesis using y1 y2 by simp
qed

theorem interpolation_divisor_positive_witness:
  "getitem (np_where (map (\<lambda>y. 0.707 \<le> y) [0, 1/2, 1 :: real])) 0 = Inr 2
   \<and> [0, 1/2, 1 :: real] ! (2 - 1) < 0.707
   \<and> 0.707 \<le> [0, 1/2, 1 :: real] ! 2
   \<and> 0 < [0, 1/2, 1 :: real] ! 2 - [0, 1/2, 1] ! (2 - 1)
   \<and> simple_threshold_estimate sample_three_levels 0.707 =
           Inr (Num ([1, 2, 3] ! (2 - 1)
                     + (0.707 - [0, 1/2, 1] ! (2 - 1))
                       * ([1, 2, 3] ! 2 - [1, 2, 3] ! (2 - 1))
                       / ([0, 1/2, 1] ! 2 - [0, 1/2, 1] ! (2 - 1))),
                [1, 2, 3], [0, 1/2, 1], [2, 2, 2])"
proof -
  have a: "3 \<le> length [1, 2, 3 :: real]" by simp
  have b: "\<exists>y\<in>set [0, 1/2, 1 :: real]. y < 0.707" by simp
  have c: "\<exists>y\<in>set [0, 1/2, 1 :: real]. 0.707 \<le> y" by simp
  have d: "(2 :: nat) \<noteq> 0" by simp
  show ?thesis
    using interpolation_divisor_positive[OF sample_three_levels_eval a b c sample_transition_idx d]
      sample_transition_idx by (intro conjI) blast+
qed

section \<open>The extrapolated threshold\<close>

text \<open>
  Claim C3 says that, with every level at or above the target, the returned threshold
  \<open>min(x_data) - min(x_data) * 0.1\<close> is strictly below the lowest intensity, for all
  intensities; the comment in the source says the same.  On the table with two correct
  trials at each of the intensities 0, 1 and 2 every level is at or above the target
  and the lowest intensity is 0: the function returns 0, the lowest intensity itself,
  which is not strictly below it.
\<close>

theorem zero_intensity_extrapolation:
  "simple_levels sample_from_zero = ([0, 1, 2], [1, 1, 1], [2, 2, 2])
   \<and> simple_threshold_estimate sample_from_zero 0.707 = Inr (Num 0, [0, 1, 2], [1, 1, 1], [2, 2, 2])
   \<and> Min (set [0, 1, 2 :: real]) = 0
   \<and> \<not> (0 :: real) < 0"
proof -
  have a: "3 \<le> length [0, 1, 2 :: real]" by simp
  have up: "\<forall>y\<in>set [1, 1, 1 :: real]. 0.707 \<le> y" by simp
  have mn: "Min (set [0, 1, 2 :: real]) = 0" by simp
  have "threshold_from_levels [0, 1, 2] [1, 1, 1] 0.707 = Inr (Num 0)"
    using threshold_all_above[OF a up] mn by simp
  then have "simple_threshold_estimate sample_from_zero 0.707
               = Inr (Num 0, [0, 1, 2], [1, 1, 1], [2, 2, 2])"
    using sample_from_zero_eval by (simp add: simple_threshold_estimate_def)
  then show ?thesis using sample_from_zero_eval mn by simp
qed

section \<open>The scenario of the specification\<close>

text \<open>
  Claim C4, as amended.  For the levels with intensities 400, 450, 500, 550, 600 and
  proportions 0.5, 0.6, 0.75, 0.9, 0.95 and the target 0.707, the first level at or
  above the target is the one at 500 and its predecessor the one at 450; the threshold
  is \<open>450 + (0.707 - 0.6) * 50 / 0.15 = 1457 / 3\<close>, strictly between 450 and 500.
\<close>

theorem scenario_threshold:
  "threshold_from_levels [400, 450, 500, 550, 600] [0.5, 0.6, 0.75, 0.9, 0.95] 0.707
     = Inr (Num (1457 / 3))
   \<and> (450 :: real) < 1457 / 3 \<and> (1457 / 3 :: real) < 500"
  using scenario_value by simp

theorem scenario_threshold_witness:
  "np_any (map (\<lambda>y. y < 0.707) [0.5, 0.6, 0.75, 0.9, 0.95 :: real])
   \<and> np_any (map (\<lambda>y. 0.707 \<le> y) [0.5, 0.6, 0.75, 0.9, 0.95 :: real])
   \<and> getitem (np_where (map (\<lambda>y. 0.707 \<le> y) [0.5, 0.6, 0.75, 0.9, 0.95 :: real])) 0 = Inr 2
   \<and> threshold_from_levels [400, 450, 500, 550, 600] [0.5, 0.6, 0.75, 0.9, 0.95] 0.707
       = Inr (Num (450 + (0.707 - 0.6) * (500 - 450) / (0.75 - 0.6)))"
proof -
  have a: "np_any (map (\<lambda>y. y < 0.707) [0.5, 0.6, 0.75, 0.9, 0.95 :: real])"
    by (simp add: np_any_def)
  have b: "np_any (map (\<lambda>y. 0.707 \<le> y) [0.5, 0.6, 0.75, 0.9, 0.95 :: real])"
    by (simp add: np_any_def)
  have c: "(450 + (0.707 - 0.6) * (500 - 450) / (0.75 - 0.6) :: real) = 1457 / 3" by simp
  have "threshold_from_levels [400, 450, 500, 550, 600] [0.5, 0.6, 0.75, 0.9, 0.95] 0.707
       = Inr (Num (450 + (0.707 - 0.6) * (500 - 450) / (0.75 - 0.6)))"
    using scenario_threshold[THEN conjunct1] unfolding c .
  then show ?thesis using a b scenario_transition_idx by (intro conjI)
qed

text \<open>The threshold of the scenario does not lie strictly between 500 and 550.\<close>

theorem scenario_threshold_below_500:
  "threshold_from_levels [400, 450, 500, 550, 600] [0.5, 0.6, 0.75, 0.9, 0.95] 0.707
     = Inr (Num (1457 / 3))
   \<and> \<not> ((500 :: real) < 1457 / 3 \<and> (1457 / 3 :: real) < 550)"
  using scenario_value by simp

section \<open>Too few levels for a fit\<close>

text \<open>
  Claim C6.  When fewer than four unique intensities, or fewer than four levels with at
  least two trials, come out of the aggregation, \<open>fit_psychophysical_curve\<close> returns
  the tuple of seven \<open>None\<close> and has made no call of the optimizer, whatever the
  optimizer and the method are.
\<close>

theorem insufficient_levels_no_fit:
  assumes "length (np_unique (cmpPx_values trials)) < 4 \<or> length (fst (fit_levels trials)) < 4"
  shows "fit_psychophysical_curve lib trials method = (Some all_none, [])
       \<and> all_none = (None, None, None, None, None, None, None)"
proof -
  obtain x y n where lv: "fit_levels trials = (x, y, n)" by (cases "fit_levels trials")
  have "length (np_sort (np_unique (cmpPx_values trials))) < 4 \<or> length x < 4"
    using assms lv by (simp add: np_sort_def)
  then have "fit_psychophysical_curve lib trials method = (Some all_none, [])"
    using fit_unfold[OF lv, of lib "method"] by auto
  then show ?thesis by (simp add: all_none_def)
qed

theorem insufficient_levels_no_fit_witness:
  "length (fst (fit_levels sample_three_levels)) < 4
   \<and> fit_psychophysical_curve (constant_scipy [1/2, 1, 5/2, 457/500] NaN)
        sample_three_levels ''logistic'' = (Some all_none, [])"
proof -
  have a: "length (fst (fit_levels sample_three_levels)) < 4"
    by (simp add: sample_three_fit_levels)
  then have b: "length (np_unique (cmpPx_values sample_three_levels)) < 4
                 \<or> length (fst (fit_levels sample_three_levels)) < 4" by (rule disjI2)
  show ?thesis
    using a insufficient_levels_no_fit[OF b, of "constant_scipy [1/2, 1, 5/2, 457/500] NaN"
            "''logistic''", THEN conjunct1]
    by (intro conjI)
qed

section \<open>The threshold of the logistic fit\<close>

text \<open>
  Claim C2.  Whenever the logistic fit returns parameters \<open>a, b, c, d\<close>: if
  \<open>a < 0.707 < d\<close> and \<open>b > 0\<close> the threshold it returns is the value the program
  computes for \<open>c - ln ((d - a) / (0.707 - a) - 1) / b\<close>, replaced by \<open>nan\<close> when that
  value is below the smallest or above the largest level intensity; otherwise the
  threshold is \<open>nan\<close>.  The value is the one of the float operations, whatever they
  round to, and \<open>0.707\<close> is the float of that literal.
\<close>

theorem logistic_threshold_rule:
  assumes "fst (fit_psychophysical_curve lib trials ''logistic'') = Some t"
    and "fit_popt t = Some [a, b, c, d]"
  shows "\<exists>x_data y_data n_trials.
           fit_levels trials = (x_data, y_data, n_trials)
         \<and> fit_threshold t =
             Some (if a < float_0_707 \<and> float_0_707 < d \<and> 0 < b then
                     (let v = float_sub lib (Num c)
                                (float_div lib
                                   (np_log lib
                                      (float_sub lib
                                         (float_div lib
                                            (float_sub lib (Num d) (Num a))
                                            (float_sub lib (Num float_0_707) (Num a)))
                                         (Num 1)))
                                   (Num b))
                      in if float_less v (Num (Min (set x_data)))
                            \<or> float_less (Num (Max (set x_data))) v
                         then NaN else v)
                   else NaN)"
proof -
  have nn: "fit_popt t \<noteq> None" using assms(2) by simp
  obtain x y n call popt pcov where lv: "fit_levels trials = (x, y, n)" and len: "4 \<le> length x"
    and fin: "logistic_finish lib x y n popt pcov = Inr t"
    using fit_success_cases[OF assms(1) nn] by auto
  have "fit_popt t = Some popt" using logistic_finish_levels[OF fin] by simp
  then have popt: "popt = [a, b, c, d]" using assms(2) by simp
  have x: "x \<noteq> []" using len by auto
  have "fit_threshold t =
             Some (if a < float_0_707 \<and> float_0_707 < d \<and> 0 < b then
                     (let v = float_sub lib (Num c)
                                (float_div lib
                                   (np_log lib
                                      (float_sub lib
                                         (float_div lib
                                            (float_sub lib (Num d) (Num a))
                                            (float_sub lib (Num float_0_707) (Num a)))
                                         (Num 1)))
                                   (Num b))
                      in if float_less v (Num (Min (set x)))
                            \<or> float_less (Num (Max (set x))) v
                         then NaN else v)
                   else NaN)"
    using fin unfolding popt
    by (auto simp: logistic_threshold_value[OF x] try_bind_def Let_def fit_threshold_def)
  then show ?thesis using lv by blast
qed

theorem logistic_threshold_rule_witness:
  "\<exists>t. fst (fit_psychophysical_curve
              (constant_scipy [1/2, 1, 5/2, 4116290059416633 / 4503599627370496] NaN)
              sample_four_levels ''logistic'') = Some t
       \<and> fit_popt t = Some [1/2, 1, 5/2, 4116290059416633 / 4503599627370496]
       \<and> (1/2 :: real) < float_0_707 \<and> float_0_707 < 4116290059416633 / 4503599627370496
       \<and> (0 :: real) < 1
       \<and> 5/2 - ln ((4116290059416633 / 4503599627370496 - 1/2) / (float_0_707 - 1/2) - 1) / 1
           = (5/2 :: real)
       \<and> fit_threshold t = Some (Num (5/2))"
proof -
  let ?d = "4116290059416633 / 4503599627370496 :: real"
  let ?lib = "constant_scipy [1/2, 1, 5/2, ?d] NaN"
  obtain t where t: "fst (fit_psychophysical_curve ?lib sample_four_levels ''logistic'') = Some t"
    and p: "fit_popt t = Some [1/2, 1, 5/2, ?d]"
    using sample_fit_logistic_inverted by blast
  have c1: "(1/2 :: real) < float_0_707" and c2: "float_0_707 < ?d" and c3: "(0 :: real) < 1"
    by (simp_all add: float_0_707_def)
  have one: "(?d - 1/2) / (float_0_707 - 1/2) - 1 = 1" by (simp add: float_0_707_def)
  have val: "5/2 - ln ((?d - 1/2) / (float_0_707 - 1/2) - 1) / 1 = (5/2 :: real)"
    unfolding one by simp
  have v: "exact_sub (Num (5/2))
             (exact_div
                (exact_log
                   (exact_sub
                      (exact_div (exact_sub (Num ?d) (Num (1/2)))
                                 (exact_sub (Num float_0_707) (Num (1/2))))
                      (Num 1)))
                (Num 1))
           = Num (5/2)"
    using exact_threshold_formula[OF c1 c2 c3, of "5/2"] val by simp
  obtain x y n where lv: "fit_levels sample_four_levels = (x, y, n)"
    and thr: "fit_threshold t =
             Some (if (1/2 :: real) < float_0_707 \<and> float_0_707 < ?d \<and> 0 < (1 :: real) then
                     (let v = float_sub ?lib (Num (5/2))
                                (float_div ?lib
                                   (np_log ?lib
                                      (float_sub ?lib
                                         (float_div ?lib
                                            (float_sub ?lib (Num ?d) (Num (1/2)))
                                            (float_sub ?lib (Num float_0_707) (Num (1/2))))
                                         (Num 1)))
                                   (Num 1))
                      in if float_less v (Num (Min (set x)))
                            \<or> float_less (Num (Max (set x))) v
                         then NaN else v)
                   else NaN)"
    using logistic_threshold_rule[OF t p] by blast
  have x: "x = [1, 2, 3, 4]" using lv sample_four_fit_levels by simp
  have ops: "float_sub ?lib = exact_sub" "float_div ?lib = exact_div" "np_log ?lib = exact_log"
    by (simp_all add: constant_scipy_def)
  have "fit_threshold t = Some (Num (5/2))"
    using thr c1 c2 unfolding x ops v by simp
  then show ?thesis using t p c1 c2 c3 val by blast
qed

section \<open>The threshold of the cumulative-normal fit\<close>

text \<open>
  Claim C8.  Whenever the cumulative-normal fit returns parameters, they are two, \<open>mu\<close>
  and \<open>sigma\<close>, and the threshold it returns is \<open>norm.ppf(0.707, mu, sigma)\<close> as the
  library computes it, with no condition on where that value lies: it is returned also
  when it is outside the range of the level intensities.
\<close>

theorem cumulative_normal_threshold_ungated:
  assumes "fst (fit_psychophysical_curve lib trials ''cumulative_normal'') = Some t"
    and "fit_popt t = Some popt"
  shows "\<exists>mu sigma. popt = [mu, sigma] \<and> fit_threshold t = Some (norm_ppf lib 0.707 mu sigma)"
proof -
  have nn: "fit_popt t \<noteq> None" using assms(2) by simp
  obtain x y n call popt' pcov where fin: "cumulative_finish lib x y n popt' pcov = Inr t"
    using fit_success_cases[OF assms(1) nn] by auto
  have "fit_popt t = Some popt'" using cumulative_finish_levels[OF fin] by simp
  then have eq: "popt' = popt" using assms(2) by simp
  show ?thesis
    using fin unfolding eq
    by (induction lib x y n popt pcov rule: cumulative_finish.induct)
       (auto simp: fit_threshold_def Let_def)
qed

theorem cumulative_normal_threshold_ungated_witness:
  "\<exists>t. fst (fit_psychophysical_curve (constant_scipy [10, 1] (Num (21/2)))
              sample_four_levels ''cumulative_normal'') = Some t
       \<and> fit_popt t = Some [10, 1]
       \<and> fit_levels sample_four_levels = ([1, 2, 3, 4], [0, 1/2, 1, 1], [2, 2, 2, 2])
       \<and> fit_threshold t = Some (Num (21/2))
       \<and> Max (set [1, 2, 3, 4 :: real]) < 21/2"
proof -
  obtain t where t: "fst (fit_psychophysical_curve (constant_scipy [10, 1] (Num (21/2)))
              sample_four_levels ''cumulative_normal'') = Some t"
    and p: "fit_popt t = Some [10, 1]"
    using sample_fit_cumulative by blast
  obtain mu sigma where "[10, 1] = [mu, sigma]"
    and "fit_threshold t = Some (norm_ppf (constant_scipy [10, 1] (Num (21/2))) 0.707 mu sigma)"
    using cumulative_normal_threshold_ungated[OF t p] by blast
  then have "fit_threshold t = Some (Num (21/2))" by (simp add: constant_scipy_def)
  moreover have "Max (set [1, 2, 3, 4 :: real]) < 21/2" by simp
  ultimately show ?thesis using t p sample_four_fit_levels by blast
qed

section \<open>analyze_dataset when the fit fails\<close>

text \<open>
  Claim C7, as amended.  For every dataset with at least one trial on which the fit
  returns no parameters (too few levels, or an exception inside the fit such as an
  optimizer error), \<open>analyze_dataset\<close> raises nothing and returns a record with the
  interpolated threshold of \<open>simple_threshold_estimate\<close>, the number of trials, the
  overall accuracy, the stimulus range and the per-session entries; its fit parameters
  and R squared are \<open>None\<close> and its fitted threshold is \<open>nan\<close>.
\<close>

theorem analyze_dataset_on_fit_failure:
  assumes "all_trials_of dataset_data \<noteq> []"
    and "fst (fit_psychophysical_curve lib (all_trials_of dataset_data) method) = Some t"
    and "fit_popt t = None"
  shows "\<exists>simple_threshold x_simple y_simple n_simple.
           simple_threshold_estimate (all_trials_of dataset_data) 0.707
             = Inr (simple_threshold, x_simple, y_simple, n_simple)
         \<and> analyze_dataset lib dataset_name dataset_data method =
             Inr \<lparr>res_dataset = dataset_name,
                  res_n_trials = length (all_trials_of dataset_data),
                  res_overall_accuracy = np_mean_bool (correct_responses (all_trials_of dataset_data)),
                  res_stimulus_range = (Min (set (cmpPx_values (all_trials_of dataset_data))),
                                        Max (set (cmpPx_values (all_trials_of dataset_data)))),
                  res_simple_threshold = simple_threshold,
                  res_fit_params = None,
                  res_r_squared = None,
                  res_threshold_707 = Some NaN,
                  res_x_data = Some x_simple,
                  res_y_data = Some y_simple,
                  res_n_trials_per_level = Some n_simple,
                  res_session_info = session_info_of dataset_data,
                  res_method = method\<rparr>"
proof -
  let ?all = "all_trials_of dataset_data"
  have ne: "cmpPx_values ?all \<noteq> []" using assms(1) by (simp add: cmpPx_values_empty)
  obtain thr x y n where est: "simple_threshold_estimate ?all 0.707 = Inr (thr, x, y, n)"
    using simple_threshold_estimate_total[of ?all "0.707"] by blast
  obtain popt pcov r2 t7 xd yd nt where tt: "t = (popt, pcov, r2, t7, xd, yd, nt)"
    by (cases t)
  have pn: "popt = None" using assms(3) tt by (simp add: fit_popt_def)
  have len: "length (cmpPx_values ?all) = length ?all" by (simp add: cmpPx_values_def)
  have "analyze_dataset lib dataset_name dataset_data method =
             Inr \<lparr>res_dataset = dataset_name,
                  res_n_trials = length ?all,
                  res_overall_accuracy = np_mean_bool (correct_responses ?all),
                  res_stimulus_range = (Min (set (cmpPx_values ?all)), Max (set (cmpPx_values ?all))),
                  res_simple_threshold = thr,
                  res_fit_params = None,
                  res_r_squared = None,
                  res_threshold_707 = Some NaN,
                  res_x_data = Some x,
                  res_y_data = Some y,
                  res_n_trials_per_level = Some n,
                  res_session_info = session_info_of dataset_data,
                  res_method = method\<rparr>"
    unfolding analyze_dataset_def Let_def
    by (simp add: np_min_Min[OF ne] np_max_Max[OF ne] try_bind_def est[simplified] assms(2)
          tt pn len)
  then show ?thesis using est by blast
qed

theorem analyze_dataset_on_fit_failure_witness:
  "\<exists>r. analyze_dataset raising_scipy ''bricks004''
          [(''2AFC_P_20251020_003915.csv'',
            \<lparr>session_data = sample_four_levels, session_datetime = ()\<rparr>)] ''logistic'' = Inr r
       \<and> res_fit_params r = None \<and> res_r_squared r = None \<and> res_threshold_707 r = Some NaN
       \<and> res_n_trials r = 8 \<and> res_overall_accuracy r = Num (5/8)
       \<and> res_stimulus_range r = (1, 4)"
proof -
  let ?data = "[(''2AFC_P_20251020_003915.csv'',
            \<lparr>session_data = sample_four_levels, session_datetime = ()\<rparr>)]"
  have all: "all_trials_of ?data = sample_four_levels" by (simp add: all_trials_of_def)
  have ne: "all_trials_of ?data \<noteq> []"
    by (simp add: all_trials_of_def sample_four_levels_def)
  have f: "fst (fit_psychophysical_curve raising_scipy (all_trials_of ?data) ''logistic'')
             = Some all_none"
    using sample_raising_fit by (auto simp: all)
  note w = analyze_dataset_on_fit_failure[OF ne f all_none_popt, of "''bricks004''"]
  have acc: "np_mean_bool (correct_responses sample_four_levels) = Num (5/8)"
    by (simp add: np_mean_bool_def correct_responses_def sample_four_levels_def np_sum_bool_def)
  have rng: "Min (set (cmpPx_values sample_four_levels)) = 1"
    "Max (set (cmpPx_values sample_four_levels)) = 4"
    by (simp_all add: cmpPx_values_def sample_four_levels_def)
  have n: "length sample_four_levels = 8" by (simp add: sample_four_levels_def)
  show ?thesis using w by (auto simp: all acc rng n)
qed

text \<open>
  On a dataset without any trial the fit reports too few levels, and \<open>analyze_dataset\<close>
  raises \<open>ValueError\<close>: \<open>np.min\<close> of the empty intensity array, when the stimulus range
  is printed.
\<close>

theorem analyze_dataset_empty_raises:
  "fst (fit_psychophysical_curve raising_scipy
          (all_trials_of ([] :: (string \<times> unit session) list)) ''logistic'') = Some all_none
   \<and> analyze_dataset raising_scipy ''bricks004'' ([] :: (string \<times> unit session) list) ''logistic''
       = Inl ValueError"
  by (simp add: analyze_dataset_def all_trials_of_def cmpPx_values_def try_bind_def
        fit_psychophysical_curve_def np_sort_def np_unique_def Let_def)

end
